theory Spec2Isabelle
  imports Main "HOL-Library.Sublist" "HOL-Library.AList"
begin

section \<open>Strings and JSON values\<close>

text \<open>
  JavaScript strings are modelled as \<open>string\<close> (lists of 8-bit characters). The case
  conversions \<open>toLowerCase\<close> and \<open>toUpperCase\<close> act on the ASCII letters and leave every
  other character alone; all catalog data and all keywords of the keyword table are ASCII.
\<close>

definition toLowerCaseChar :: "char \<Rightarrow> char" where
  "toLowerCaseChar c =
     (let n = (of_char c :: nat) in if 65 \<le> n \<and> n \<le> 90 then char_of (n + 32) else c)"

definition toUpperCaseChar :: "char \<Rightarrow> char" where
  "toUpperCaseChar c =
     (let n = (of_char c :: nat) in if 97 \<le> n \<and> n \<le> 122 then char_of (n - 32) else c)"

definition toLowerCase :: "string \<Rightarrow> string" where
  "toLowerCase s = map toLowerCaseChar s"

definition toUpperCase :: "string \<Rightarrow> string" where
  "toUpperCase s = map toUpperCaseChar s"

text \<open>\<open>s.includes(t)\<close> on strings: \<open>t\<close> occurs in \<open>s\<close> as a contiguous block.\<close>

fun jsIncludes :: "'a list \<Rightarrow> 'a list \<Rightarrow> bool" where
  "jsIncludes [] t = (t = [])"
| "jsIncludes (c # s) t = (prefix t (c # s) \<or> jsIncludes s t)"

text \<open>\<open>s.split(d)\<close> for a one-character separator, and \<open>ws.join(sep)\<close>.\<close>

fun split :: "char \<Rightarrow> string \<Rightarrow> string list" where
  "split d [] = [[]]"
| "split d (c # s) =
     (if c = d then [] # split d s
      else (case split d s of [] \<Rightarrow> [[c]] | w # ws \<Rightarrow> (c # w) # ws))"

fun join :: "string \<Rightarrow> string list \<Rightarrow> string" where
  "join sep [] = []"
| "join sep [w] = w"
| "join sep (w # v # ws) = w @ sep @ join sep (v # ws)"

text \<open>Decimal rendering of a non-negative integer, as a template literal prints it.\<close>

function showNat :: "nat \<Rightarrow> string" where
  "showNat n =
     (if n < 10 then [char_of (48 + n)] else showNat (n div 10) @ [char_of (48 + n mod 10)])"
  by pat_completeness auto
termination
  by (relation "measure (\<lambda>n. n)") auto

declare showNat.simps [simp del]

text \<open>
  \<open>x || y\<close> on an optional string: the left operand is falsy when it is absent or empty.
  \<open>xs || []\<close> on an optional array: an array is always truthy.
\<close>

definition orString :: "string option \<Rightarrow> string \<Rightarrow> string" where
  "orString x d = (case x of None \<Rightarrow> d | Some s \<Rightarrow> if s = [] then d else s)"

definition orEmpty :: "'a list option \<Rightarrow> 'a list" where
  "orEmpty x = (case x of None \<Rightarrow> [] | Some xs \<Rightarrow> xs)"

text \<open>Values produced by \<open>JSON.parse\<close>; object members are kept in order.\<close>

datatype json =
    JNull
  | JBool bool
  | JNum int
  | JStr string
  | JArr "json list"
  | JObj "(string \<times> json) list"

text \<open>
  \<open>array.findIndex(P)\<close>, with \<open>None\<close> for \<open>-1\<close>, and the deduplication idiom
  \<open>xs.filter((x, index, self) => index === self.findIndex(y => key(y) === key(x)))\<close>.
\<close>

fun findIndex :: "('a \<Rightarrow> bool) \<Rightarrow> 'a list \<Rightarrow> nat option" where
  "findIndex P [] = None"
| "findIndex P (x # xs) =
     (if P x then Some 0 else map_option Suc (findIndex P xs))"

definition uniqueBy :: "('a \<Rightarrow> 'k) \<Rightarrow> 'a list \<Rightarrow> 'a list" where
  "uniqueBy key xs =
     map snd (filter (\<lambda>(index, x). Some index = findIndex (\<lambda>y. key y = key x) xs)
       (enumerate 0 xs))"

text \<open>
  \<open>set.add(x)\<close> on a JavaScript \<open>Set\<close>, which iterates in insertion order: the set is the
  list of its members in the order they were first added.
\<close>

definition setAdd :: "'a list \<Rightarrow> 'a \<Rightarrow> 'a list" where
  "setAdd s x = (if x \<in> set s then s else s @ [x])"

section \<open>The catalog (patterns.ts, integrations.ts)\<close>

text \<open>
  A tool pattern. The fields \<open>template\<close>, \<open>inputSchema\<close> and \<open>outputSchema\<close> of the source
  are text and schema blobs that no function modelled here reads; they are left out.
\<close>

record ToolPattern =
  p_id :: string
  p_name :: string
  p_category :: string
  p_description :: string
  p_actions :: "string list"
  p_dependencies :: "string list"
  p_examples :: "string list option"

definition TOOL_PATTERNS :: "ToolPattern list" where
  "TOOL_PATTERNS = [
    \<lparr> p_id = ''api-request'', p_name = ''API Request Tool'', p_category = ''api'',
      p_description = ''Make HTTP requests to REST APIs'',
      p_actions = [''get'', ''post'', ''put'', ''delete'', ''patch'', ''request''],
      p_dependencies = [''axios'', ''zod''],
      p_examples = Some [''fetch data from API'', ''post to webhook'', ''REST API calls''] \<rparr>,
    \<lparr> p_id = ''file-operations'', p_name = ''File Operations Tool'', p_category = ''file'',
      p_description = ''Read, write, and manipulate files'',
      p_actions = [''read'', ''write'', ''delete'', ''list'', ''copy'', ''move'', ''exists''],
      p_dependencies = [''fs-extra'', ''path''],
      p_examples = Some [''read files'', ''write data to file'', ''manage directories'',
        ''file system operations''] \<rparr>,
    \<lparr> p_id = ''database-query'', p_name = ''Database Query Tool'', p_category = ''database'',
      p_description = ''Execute database queries and operations'',
      p_actions = [''query'', ''insert'', ''update'', ''delete'', ''select''],
      p_dependencies = [''pg'', ''mysql2'', ''sqlite3''],
      p_examples = Some [''run SQL queries'', ''database operations'', ''data retrieval''] \<rparr>,
    \<lparr> p_id = ''notification-sender'', p_name = ''Notification Sender Tool'',
      p_category = ''notification'',
      p_description = ''Send notifications via email, Slack, or other channels'',
      p_actions = [''send'', ''email'', ''slack'', ''webhook'', ''sms''],
      p_dependencies = [''nodemailer'', ''@slack/web-api'', ''twilio''],
      p_examples = Some [''send emails'', ''slack notifications'', ''SMS alerts'',
        ''webhook calls''] \<rparr>,
    \<lparr> p_id = ''data-processing'', p_name = ''Data Processing Tool'',
      p_category = ''processing'',
      p_description = ''Transform, filter, and process data'',
      p_actions = [''transform'', ''filter'', ''map'', ''reduce'', ''sort'', ''group''],
      p_dependencies = [''lodash'', ''moment'', ''csv-parser''],
      p_examples = Some [''process arrays'', ''transform data'', ''filter results'',
        ''data manipulation''] \<rparr>,
    \<lparr> p_id = ''auth-handler'', p_name = ''Authentication Handler'', p_category = ''auth'',
      p_description = ''Handle authentication and authorization'',
      p_actions = [''login'', ''logout'', ''verify'', ''refresh'', ''oauth''],
      p_dependencies = [''jsonwebtoken'', ''bcrypt'', ''passport''],
      p_examples = Some [''user authentication'', ''JWT tokens'', ''OAuth flows'',
        ''login systems''] \<rparr> ]"

text \<open>
  An integration definition. A property of the configuration schema has a type, an
  optional description and an optional default; \<open>setupInstructions\<close> is a text blob that no
  function modelled here reads and is left out. \<open>cs_properties\<close> lists the members of
  \<open>configSchema.properties\<close> in the order \<open>Object.entries\<close> yields them.
\<close>

record SchemaProperty =
  sp_type :: string
  sp_description :: "string option"
  sp_default :: "json option"

record ConfigSchema =
  cs_type :: string
  cs_properties :: "(string \<times> SchemaProperty) list option"
  cs_required :: "string list"

record IntegrationConfig =
  i_id :: string
  i_name :: string
  i_displayName :: string
  i_description :: string
  i_dependencies :: "string list"
  i_authType :: "string option"
  i_environmentVariables :: "string list option"
  i_configSchema :: ConfigSchema

definition schemaProp :: "string \<Rightarrow> string \<Rightarrow> SchemaProperty" where
  "schemaProp ty d = \<lparr> sp_type = ty, sp_description = Some d, sp_default = None \<rparr>"

definition schemaPropDefault :: "string \<Rightarrow> string \<Rightarrow> json \<Rightarrow> SchemaProperty" where
  "schemaPropDefault ty d v = \<lparr> sp_type = ty, sp_description = Some d, sp_default = Some v \<rparr>"

definition INTEGRATIONS :: "IntegrationConfig list" where
  "INTEGRATIONS = [
    \<lparr> i_id = ''github'', i_name = ''github-api'', i_displayName = ''GitHub API'',
      i_description = ''Integrate with GitHub repositories, issues, and pull requests'',
      i_dependencies = [''@octokit/rest'', ''@octokit/auth-app''],
      i_authType = Some ''api-key'',
      i_environmentVariables = Some [''GITHUB_TOKEN'', ''GITHUB_APP_ID'', ''GITHUB_PRIVATE_KEY''],
      i_configSchema = \<lparr> cs_type = ''object'',
        cs_properties = Some [
          (''token'', schemaProp ''string'' ''GitHub personal access token''),
          (''owner'', schemaProp ''string'' ''Repository owner''),
          (''repo'', schemaProp ''string'' ''Repository name'')],
        cs_required = [''token''] \<rparr> \<rparr>,
    \<lparr> i_id = ''slack'', i_name = ''slack-api'', i_displayName = ''Slack API'',
      i_description = ''Send messages and interact with Slack workspaces'',
      i_dependencies = [''@slack/web-api'', ''@slack/bolt''],
      i_authType = Some ''api-key'',
      i_environmentVariables = Some [''SLACK_BOT_TOKEN'', ''SLACK_SIGNING_SECRET''],
      i_configSchema = \<lparr> cs_type = ''object'',
        cs_properties = Some [
          (''token'', schemaProp ''string'' ''Slack bot token''),
          (''channel'', schemaProp ''string'' ''Default channel'')],
        cs_required = [''token''] \<rparr> \<rparr>,
    \<lparr> i_id = ''postgresql'', i_name = ''postgresql-db'', i_displayName = ''PostgreSQL Database'',
      i_description = ''Connect to and query PostgreSQL databases'',
      i_dependencies = [''pg'', ''@types/pg''],
      i_authType = Some ''basic'',
      i_environmentVariables = Some [''DATABASE_URL'', ''DB_HOST'', ''DB_PORT'', ''DB_NAME'',
        ''DB_USER'', ''DB_PASSWORD''],
      i_configSchema = \<lparr> cs_type = ''object'',
        cs_properties = Some [
          (''host'', schemaProp ''string'' ''Database host''),
          (''port'', schemaPropDefault ''number'' ''Database port'' (JNum 5432)),
          (''database'', schemaProp ''string'' ''Database name''),
          (''user'', schemaProp ''string'' ''Database user''),
          (''password'', schemaProp ''string'' ''Database password''),
          (''ssl'', schemaPropDefault ''boolean'' ''Use SSL connection'' (JBool False))],
        cs_required = [''host'', ''database'', ''user'', ''password''] \<rparr> \<rparr>,
    \<lparr> i_id = ''sendgrid'', i_name = ''sendgrid-email'', i_displayName = ''SendGrid Email'',
      i_description = ''Send emails using SendGrid service'',
      i_dependencies = [''@sendgrid/mail''],
      i_authType = Some ''api-key'',
      i_environmentVariables = Some [''SENDGRID_API_KEY''],
      i_configSchema = \<lparr> cs_type = ''object'',
        cs_properties = Some [
          (''apiKey'', schemaProp ''string'' ''SendGrid API key''),
          (''fromEmail'', schemaProp ''string'' ''Default sender email''),
          (''fromName'', schemaProp ''string'' ''Default sender name'')],
        cs_required = [''apiKey'', ''fromEmail''] \<rparr> \<rparr>,
    \<lparr> i_id = ''aws-s3'', i_name = ''aws-s3-storage'', i_displayName = ''AWS S3 Storage'',
      i_description = ''Upload, download, and manage files in AWS S3'',
      i_dependencies = [''@aws-sdk/client-s3'', ''@aws-sdk/s3-request-presigner''],
      i_authType = Some ''api-key'',
      i_environmentVariables = Some [''AWS_ACCESS_KEY_ID'', ''AWS_SECRET_ACCESS_KEY'',
        ''AWS_REGION'', ''AWS_S3_BUCKET''],
      i_configSchema = \<lparr> cs_type = ''object'',
        cs_properties = Some [
          (''accessKeyId'', schemaProp ''string'' ''AWS access key ID''),
          (''secretAccessKey'', schemaProp ''string'' ''AWS secret access key''),
          (''region'', schemaPropDefault ''string'' ''AWS region'' (JStr ''us-east-1'')),
          (''bucket'', schemaProp ''string'' ''S3 bucket name'')],
        cs_required = [''accessKeyId'', ''secretAccessKey'', ''bucket''] \<rparr> \<rparr>,
    \<lparr> i_id = ''discord'', i_name = ''discord-bot'', i_displayName = ''Discord Bot'',
      i_description = ''Create Discord bot interactions and send messages'',
      i_dependencies = [''discord.js''],
      i_authType = Some ''api-key'',
      i_environmentVariables = Some [''DISCORD_BOT_TOKEN'', ''DISCORD_CLIENT_ID''],
      i_configSchema = \<lparr> cs_type = ''object'',
        cs_properties = Some [
          (''token'', schemaProp ''string'' ''Discord bot token''),
          (''clientId'', schemaProp ''string'' ''Discord application client ID''),
          (''guildId'', schemaProp ''string'' ''Discord server ID'')],
        cs_required = [''token'', ''clientId''] \<rparr> \<rparr>,
    \<lparr> i_id = ''twilio'', i_name = ''twilio-sms'', i_displayName = ''Twilio SMS'',
      i_description = ''Send SMS messages using Twilio'',
      i_dependencies = [''twilio''],
      i_authType = Some ''basic'',
      i_environmentVariables = Some [''TWILIO_ACCOUNT_SID'', ''TWILIO_AUTH_TOKEN'',
        ''TWILIO_PHONE_NUMBER''],
      i_configSchema = \<lparr> cs_type = ''object'',
        cs_properties = Some [
          (''accountSid'', schemaProp ''string'' ''Twilio Account SID''),
          (''authToken'', schemaProp ''string'' ''Twilio Auth Token''),
          (''phoneNumber'', schemaProp ''string'' ''Twilio phone number'')],
        cs_required = [''accountSid'', ''authToken'', ''phoneNumber''] \<rparr> \<rparr>,
    \<lparr> i_id = ''openai'', i_name = ''openai-api'', i_displayName = ''OpenAI API'',
      i_description = ''Integrate with OpenAI GPT models and other AI services'',
      i_dependencies = [''openai''],
      i_authType = Some ''api-key'',
      i_environmentVariables = Some [''OPENAI_API_KEY''],
      i_configSchema = \<lparr> cs_type = ''object'',
        cs_properties = Some [
          (''apiKey'', schemaProp ''string'' ''OpenAI API key''),
          (''model'', schemaPropDefault ''string'' ''Default model'' (JStr ''gpt-3.5-turbo'')),
          (''organization'', schemaProp ''string'' ''OpenAI organization ID'')],
        cs_required = [''apiKey''] \<rparr> \<rparr> ]"

section \<open>The resolver (class AIGenerator)\<close>

text \<open>
  The analysis is the object that \<open>JSON.parse\<close> returns from the model's answer, or the
  fallback analysis. A member that the answer may omit is optional; the functions below
  read members through \<open>||\<close> defaults exactly where the source does. The members
  that are present have the types the prompt asks for; a parsed answer with a member of
  another type is not a value of this record. A parsed \<open>null\<close> is kept apart, since
  reading a member of it throws.
\<close>

record Analysis =
  summary :: "string option"
  primaryActions :: "string list option"
  dataTypes :: "string list option"
  services :: "string list option"
  complexity :: "string option"
  toolCategories :: "string list option"
  suggestedIntegrations :: "string list option"
  keyFeatures :: "string list option"
  estimatedTools :: "nat option"

text \<open>
  One round trip to the language model followed by \<open>JSON.parse\<close>: the request throws, the
  answer has no content, the content does not parse, the content is the JSON text
  \<open>null\<close>, or another value is parsed.
\<close>

datatype 'a completion = CallFailed | NoContent | Unparseable | ParsedNull | Parsed 'a

record ToolData =
  td_name :: string
  td_description :: string
  td_inputSchema :: json
  td_outputSchema :: json
  td_implementation :: string

record GeneratedTool =
  t_id :: string
  t_patternId :: string
  t_name :: string
  t_description :: string
  t_inputSchema :: json
  t_outputSchema :: json
  t_implementation :: string
  t_dependencies :: "string list"

record Metadata =
  generatedAt :: string
  aiAnalysis :: Analysis
  originalDescription :: string

record ServerConfig =
  sc_name :: string
  sc_description :: string
  sc_patterns :: "ToolPattern list"
  sc_integrations :: "IntegrationConfig list"
  sc_customTools :: "GeneratedTool list"
  sc_dependencies :: "string list"
  sc_environmentVariables :: "(string \<times> string) list"
  sc_metadata :: Metadata

text \<open>
  What the resolver consumes from outside: the two language-model capabilities and the
  clock (\<open>Date.now()\<close> read while the tool of a pattern is assembled, and the ISO time
  stamp of the configuration).
\<close>

record Capabilities =
  analyze :: "string \<Rightarrow> Analysis completion"
  synthesize :: "Analysis \<Rightarrow> ToolPattern \<Rightarrow> ToolData completion"
  dateNow :: "ToolPattern \<Rightarrow> nat"
  isoNow :: string

definition push :: "'a list option \<Rightarrow> 'a \<Rightarrow> 'a list option" where
  "push xs x = Some (orEmpty xs @ [x])"

text \<open>
  \<open>createFallbackAnalysis\<close> builds the initial analysis and then runs its keyword blocks in
  order; each block is an update of the analysis built so far.
\<close>

definition githubRule :: "string \<Rightarrow> Analysis \<Rightarrow> Analysis" where
  "githubRule lowerDesc analysis =
     (if jsIncludes lowerDesc ''github''
      then analysis\<lparr> services := push (services analysis) ''GitHub'',
             suggestedIntegrations := push (suggestedIntegrations analysis) ''github'',
             toolCategories := push (toolCategories analysis) ''api'' \<rparr>
      else analysis)"

definition slackRule :: "string \<Rightarrow> Analysis \<Rightarrow> Analysis" where
  "slackRule lowerDesc analysis =
     (if jsIncludes lowerDesc ''slack''
      then analysis\<lparr> services := push (services analysis) ''Slack'',
             suggestedIntegrations := push (suggestedIntegrations analysis) ''slack'',
             toolCategories := push (toolCategories analysis) ''notification'' \<rparr>
      else analysis)"

definition databaseRule :: "string \<Rightarrow> Analysis \<Rightarrow> Analysis" where
  "databaseRule lowerDesc analysis =
     (if jsIncludes lowerDesc ''database'' \<or> jsIncludes lowerDesc ''sql''
      then analysis\<lparr> toolCategories := push (toolCategories analysis) ''database'',
             suggestedIntegrations := push (suggestedIntegrations analysis) ''postgresql'' \<rparr>
      else analysis)"

definition fileRule :: "string \<Rightarrow> Analysis \<Rightarrow> Analysis" where
  "fileRule lowerDesc analysis =
     (if jsIncludes lowerDesc ''file'' \<or> jsIncludes lowerDesc ''upload''
      then analysis\<lparr> toolCategories := push (toolCategories analysis) ''file'' \<rparr>
      else analysis)"

definition emailRule :: "string \<Rightarrow> Analysis \<Rightarrow> Analysis" where
  "emailRule lowerDesc analysis =
     (if jsIncludes lowerDesc ''email''
      then analysis\<lparr> suggestedIntegrations := push (suggestedIntegrations analysis) ''sendgrid'',
             toolCategories := push (toolCategories analysis) ''notification'' \<rparr>
      else analysis)"

definition defaultRule :: "Analysis \<Rightarrow> Analysis" where
  "defaultRule analysis =
     (if length (orEmpty (toolCategories analysis)) = 0
      then analysis\<lparr> toolCategories := push (toolCategories analysis) ''api'' \<rparr>
      else analysis)"

definition createFallbackAnalysis :: "string \<Rightarrow> Analysis" where
  "createFallbackAnalysis description =
     (let lowerDesc = toLowerCase description;
          analysis = \<lparr> summary = Some (take 100 description @
                          (if length description > 100 then ''...'' else [])),
                       primaryActions = Some [], dataTypes = Some [], services = Some [],
                       complexity = Some ''simple'', toolCategories = Some [],
                       suggestedIntegrations = Some [], keyFeatures = Some [],
                       estimatedTools = Some 1 \<rparr>
      in defaultRule (emailRule lowerDesc (fileRule lowerDesc (databaseRule lowerDesc
           (slackRule lowerDesc (githubRule lowerDesc analysis))))))"

text \<open>
  \<open>analyzeRequiredTools\<close>: every failure of the round trip is caught and replaced by the
  fallback analysis; a parsed value is returned as it is, \<open>null\<close> (here \<open>None\<close>) included.
\<close>

definition analyzeRequiredTools :: "Capabilities \<Rightarrow> string \<Rightarrow> Analysis option" where
  "analyzeRequiredTools env description =
     (case analyze env description of
        Parsed a \<Rightarrow> Some a
      | ParsedNull \<Rightarrow> None
      | CallFailed \<Rightarrow> Some (createFallbackAnalysis description)
      | NoContent \<Rightarrow> Some (createFallbackAnalysis description)
      | Unparseable \<Rightarrow> Some (createFallbackAnalysis description))"

text \<open>
  \<open>selectToolPatterns\<close>. \<open>selectedPatterns\<close> and \<open>uniquePatterns\<close> are the values of the
  source's variables of those names, the second when the function reaches its \<open>return\<close>;
  the function returns its first five members.
\<close>

definition actionMatches :: "string \<Rightarrow> ToolPattern \<Rightarrow> bool" where
  "actionMatches action pattern =
     list_ex (\<lambda>patternAction.
        jsIncludes (toLowerCase patternAction) (toLowerCase action) \<or>
        jsIncludes (toLowerCase action) (toLowerCase patternAction)) (p_actions pattern)"

definition selectedPatterns :: "Analysis \<Rightarrow> ToolPattern list" where
  "selectedPatterns analysis =
     (let categories = orEmpty (toolCategories analysis);
          actions = orEmpty (primaryActions analysis)
      in concat (map (\<lambda>category.
           filter (\<lambda>pattern. p_category pattern = category) TOOL_PATTERNS) categories) @
         concat (map (\<lambda>action.
           filter (\<lambda>pattern. actionMatches action pattern) TOOL_PATTERNS) actions))"

definition uniquePatterns :: "Analysis \<Rightarrow> ToolPattern list" where
  "uniquePatterns analysis =
     (let unique = uniqueBy p_id (selectedPatterns analysis)
      in if length unique = 0 then unique @ [TOOL_PATTERNS ! 0] else unique)"

definition selectToolPatterns :: "Analysis \<Rightarrow> ToolPattern list" where
  "selectToolPatterns analysis = take 5 (uniquePatterns analysis)"

text \<open>
  \<open>selectIntegrations\<close>. \<open>suggestedSelection\<close> is the value of the source's variable
  \<open>selectedIntegrations\<close> after the first loop. The second loop calls
  \<open>findIntegrations(service)\<close> for the first service; the source imports that name from
  the integrations module, which exports \<open>INTEGRATIONS\<close>, \<open>findMatchingIntegrations\<close> and no
  \<open>findIntegrations\<close>, so the binding is \<open>undefined\<close> and the call throws a \<open>TypeError\<close>
  (the message is the one of V8 for the call that the TypeScript compiler emits). The
  loop body is therefore never completed: the function returns only when there is no
  service, and then the selection is the one of the first loop.
\<close>

definition missingFunctionMessage :: string where
  "missingFunctionMessage = ''(0 , integrations_1.findIntegrations) is not a function''"

definition suggestedSelection :: "Analysis \<Rightarrow> IntegrationConfig list" where
  "suggestedSelection analysis =
     concat (map (\<lambda>integrationId.
        (case find (\<lambda>i. i_id i = integrationId) INTEGRATIONS of
           Some integration \<Rightarrow> [integration]
         | None \<Rightarrow> [])) (orEmpty (suggestedIntegrations analysis)))"

definition selectIntegrations :: "Analysis \<Rightarrow> string + IntegrationConfig list" where
  "selectIntegrations analysis =
     (let selectedIntegrations = suggestedSelection analysis
      in (case orEmpty (services analysis) of
            service # rest \<Rightarrow> Inl missingFunctionMessage
          | [] \<Rightarrow>
              (let uniqueIntegrations = uniqueBy i_id selectedIntegrations
               in Inr (take 3 uniqueIntegrations))))"

text \<open>
  \<open>generateCustomTool\<close> returns \<open>null\<close> (here \<open>None\<close>) when the answer is empty and when the
  request, the parse or the reading of a parsed \<open>null\<close> throws; \<open>generateCustomTools\<close> keeps
  the tools that were produced, in the order of the patterns.
\<close>

definition generateCustomTool ::
    "Capabilities \<Rightarrow> Analysis \<Rightarrow> ToolPattern \<Rightarrow> GeneratedTool option" where
  "generateCustomTool env analysis pattern =
     (case synthesize env analysis pattern of
        CallFailed \<Rightarrow> None
      | NoContent \<Rightarrow> None
      | Unparseable \<Rightarrow> None
      | ParsedNull \<Rightarrow> None
      | Parsed toolData \<Rightarrow>
          Some \<lparr> t_id = p_id pattern @ ''_'' @ showNat (dateNow env pattern),
                 t_patternId = p_id pattern,
                 t_name = td_name toolData,
                 t_description = td_description toolData,
                 t_inputSchema = td_inputSchema toolData,
                 t_outputSchema = td_outputSchema toolData,
                 t_implementation = td_implementation toolData,
                 t_dependencies = p_dependencies pattern \<rparr>)"

definition generateCustomTools ::
    "Capabilities \<Rightarrow> Analysis \<Rightarrow> ToolPattern list \<Rightarrow> GeneratedTool list" where
  "generateCustomTools env analysis patterns =
     concat (map (\<lambda>pattern.
       (case generateCustomTool env analysis pattern of
          Some customTool \<Rightarrow> [customTool]
        | None \<Rightarrow> [])) patterns)"

text \<open>
  \<open>generateServerName\<close>: the first three space-separated words joined by hyphens and
  lower-cased, then the three regular-expression replacements, then the suffix.
\<close>

definition isNameChar :: "char \<Rightarrow> bool" where
  "isNameChar c =
     (let n = (of_char c :: nat)
      in (97 \<le> n \<and> n \<le> 122) \<or> (48 \<le> n \<and> n \<le> 57) \<or> c = CHR ''-'')"

fun collapseHyphens :: "string \<Rightarrow> string" where
  "collapseHyphens (a # b # s) =
     (if a = CHR ''-'' \<and> b = CHR ''-'' then collapseHyphens (b # s)
      else a # collapseHyphens (b # s))"
| "collapseHyphens s = s"

definition stripHyphenEnds :: "string \<Rightarrow> string" where
  "stripHyphenEnds s =
     (let r = (case s of [] \<Rightarrow> [] | c # t \<Rightarrow> if c = CHR ''-'' then t else s)
      in if r \<noteq> [] \<and> last r = CHR ''-'' then butlast r else r)"

definition generateServerName :: "Analysis \<Rightarrow> string" where
  "generateServerName analysis =
     (let s = orString (summary analysis) ''MCP Server'';
          words = take 3 (split CHR '' '' s)
      in stripHyphenEnds (collapseHyphens (filter isNameChar
           (toLowerCase (join ''-'' words)))) @ ''-mcp-server'')"

text \<open>\<open>calculateDependencies\<close>: a \<open>Set\<close> filled in order, returned as an array.\<close>

definition calculateDependencies ::
    "ToolPattern list \<Rightarrow> IntegrationConfig list \<Rightarrow> string list" where
  "calculateDependencies patterns integrations =
     (let d0 = setAdd (setAdd [] ''@modelcontextprotocol/sdk'') ''zod'';
          d1 = foldl (\<lambda>deps pattern. foldl setAdd deps (p_dependencies pattern)) d0 patterns;
          d2 = foldl (\<lambda>deps integration. foldl setAdd deps (i_dependencies integration))
                 d1 integrations
      in d2)"

text \<open>
  \<open>generateEnvironmentVariables\<close>. The result object is an association list in property
  order; an assignment to a key that is already present replaces its value in place, as
  it does for a JavaScript object (every key contains an underscore, so none is an array
  index).
\<close>

definition envKey :: "IntegrationConfig \<Rightarrow> string \<Rightarrow> string" where
  "envKey integration key = toUpperCase (i_id integration) @ ''_'' @ toUpperCase key"

definition envValue :: "IntegrationConfig \<Rightarrow> string \<Rightarrow> SchemaProperty \<Rightarrow> string" where
  "envValue integration key p =
     orString (sp_description p) (i_displayName integration @ '' '' @ key)"

definition generateEnvironmentVariables ::
    "IntegrationConfig list \<Rightarrow> (string \<times> string) list" where
  "generateEnvironmentVariables integrations =
     foldl (\<lambda>envVars integration.
        (case cs_properties (i_configSchema integration) of
           None \<Rightarrow> envVars
         | Some props \<Rightarrow>
             foldl (\<lambda>vars (key, p).
                AList.update (envKey integration key) (envValue integration key p) vars)
               envVars props))
       [] integrations"

text \<open>
  \<open>generateServerConfig\<close>. The \<open>try\<close> block is the five steps; its \<open>catch\<close> rethrows as
  \<open>Inl\<close> with the prefixed message. The first member read of the analysis, in
  \<open>selectToolPatterns\<close>, throws a \<open>TypeError\<close> when the analysis is \<open>null\<close> (the message is
  the one of V8); the third step throws when the analysis names a service, before any tool
  is synthesized; the other steps are total functions of a typed analysis.
\<close>

definition nullAnalysisMessage :: string where
  "nullAnalysisMessage =
     ''Cannot read properties of null (reading '' @ [CHR 0x27] @ ''toolCategories'' @
     [CHR 0x27] @ '')''"

definition buildServerConfig :: "Capabilities \<Rightarrow> string \<Rightarrow> string + ServerConfig" where
  "buildServerConfig env description =
     (case analyzeRequiredTools env description of
        None \<Rightarrow> Inl nullAnalysisMessage
      | Some analysis \<Rightarrow>
          (let toolPatterns = selectToolPatterns analysis
           in (case selectIntegrations analysis of
                 Inl message \<Rightarrow> Inl message
               | Inr integrations \<Rightarrow>
                   (let customTools = generateCustomTools env analysis toolPatterns
                    in Inr \<lparr> sc_name = generateServerName analysis,
                              sc_description = orString (summary analysis) description,
                              sc_patterns = toolPatterns,
                              sc_integrations = integrations,
                              sc_customTools = customTools,
                              sc_dependencies =
                                calculateDependencies toolPatterns integrations,
                              sc_environmentVariables =
                                generateEnvironmentVariables integrations,
                              sc_metadata =
                                \<lparr> generatedAt = isoNow env, aiAnalysis = analysis,
                                  originalDescription = description \<rparr> \<rparr>))))"

definition generateServerConfig :: "Capabilities \<Rightarrow> string \<Rightarrow> string + ServerConfig" where
  "generateServerConfig env description =
     (case buildServerConfig env description of
        Inl message \<Rightarrow> Inl (''AI Generation failed: '' @ message)
      | Inr serverConfig \<Rightarrow> Inr serverConfig)"

text \<open>
  The requests that \<open>generateServerConfig\<close> sends to the Synthesize capability, in order.
  \<open>generateCustomTools\<close> sends one for every selected pattern; it is the fourth step and is
  reached when the first three have not thrown.
\<close>

definition synthesisRequests :: "Capabilities \<Rightarrow> string \<Rightarrow> ToolPattern list" where
  "synthesisRequests env description =
     (case analyzeRequiredTools env description of
        None \<Rightarrow> []
      | Some analysis \<Rightarrow>
          (let toolPatterns = selectToolPatterns analysis
           in (case selectIntegrations analysis of
                 Inl message \<Rightarrow> []
               | Inr integrations \<Rightarrow> toolPatterns)))"

section \<open>The matcher (patterns.ts, integrations.ts)\<close>

text \<open>
  \<open>findMatchingPatterns(keywords, actions = [])\<close>. \<open>pattern.examples?.some(...)\<close> is
  \<open>undefined\<close>, hence falsy, for a pattern without examples. The category test is
  \<open>Array.prototype.includes\<close>: membership of the lower-cased category among the keywords.
\<close>

definition findMatchingPatterns :: "string list \<Rightarrow> string list \<Rightarrow> ToolPattern list" where
  "findMatchingPatterns keywords actions =
     (let allKeywords = map toLowerCase (keywords @ actions)
      in filter (\<lambda>pattern.
           (let actionMatch =
                  list_ex (\<lambda>action. list_ex (\<lambda>keyword.
                      jsIncludes (toLowerCase action) keyword \<or>
                      jsIncludes keyword (toLowerCase action)) allKeywords)
                    (p_actions pattern);
                exampleMatch =
                  (case p_examples pattern of
                     None \<Rightarrow> False
                   | Some exs \<Rightarrow>
                       list_ex (\<lambda>example. list_ex (\<lambda>keyword.
                           jsIncludes (toLowerCase example) keyword \<or>
                           jsIncludes keyword (toLowerCase example)) allKeywords) exs);
                categoryMatch = (toLowerCase (p_category pattern) \<in> set allKeywords)
            in actionMatch \<or> exampleMatch \<or> categoryMatch)) TOOL_PATTERNS)"

definition findMatchingIntegrations :: "string list \<Rightarrow> IntegrationConfig list" where
  "findMatchingIntegrations keywords =
     (let lowerKeywords = map toLowerCase keywords
      in filter (\<lambda>integration.
           list_ex (\<lambda>keyword.
              jsIncludes (toLowerCase (i_id integration)) keyword \<or>
              jsIncludes (toLowerCase (i_name integration)) keyword \<or>
              jsIncludes (toLowerCase (i_displayName integration)) keyword \<or>
              jsIncludes (toLowerCase (i_description integration)) keyword) lowerKeywords)
         INTEGRATIONS)"

section \<open>The generator facade (class MCPServerGenerator)\<close>

text \<open>
  The configuration types of the core package: a tool, an integration with its optional
  environment variables and methods, and the server configuration.
\<close>

record CoreGeneratedTool =
  ct_name :: string
  ct_description :: string
  ct_inputSchema :: "json option"
  ct_implementation :: "string option"

record MethodParameter =
  mp_name :: string
  mp_type :: string

record IntegrationMethod =
  m_name :: string
  m_description :: string
  m_parameters :: "MethodParameter list option"
  m_returnType :: string
  m_implementation :: "string option"

record CoreIntegrationConfig =
  ci_name :: string
  ci_description :: string
  ci_envVars :: "string list option"
  ci_methods :: "IntegrationMethod list option"

record CoreServerConfig =
  cc_name :: string
  cc_description :: string
  cc_dependencies :: "string list"
  cc_customTools :: "CoreGeneratedTool list"
  cc_integrations :: "CoreIntegrationConfig list"

text \<open>
  White space as \<open>\s\<close> and \<open>trim\<close> see it. Of the 8-bit characters, ECMAScript counts seven
  as white space or line terminators: tab, line feed, vertical tab, form feed, carriage
  return, space and the no-break space \<open>U+00A0\<close>. (The others, \<open>U+1680\<close>, \<open>U+2000\<close> to
  \<open>U+200A\<close>, \<open>U+2028\<close>, \<open>U+2029\<close>, \<open>U+202F\<close>, \<open>U+205F\<close>, \<open>U+3000\<close> and \<open>U+FEFF\<close>, lie
  above \<open>U+00FF\<close>.)
  \<open>sanitizeName\<close>: trim, delete every character outside \<open>[a-zA-Z0-9\s-_]\<close>, turn each run
  of white space into one hyphen, lower-case.
\<close>

definition isSpace :: "char \<Rightarrow> bool" where
  "isSpace c =
     (c \<in> set [CHR 0x09, CHR 0x0A, CHR 0x0B, CHR 0x0C, CHR 0x0D, CHR 0x20, CHR 0xA0])"

definition trim :: "string \<Rightarrow> string" where
  "trim s = rev (dropWhile isSpace (rev (dropWhile isSpace s)))"

definition isSanitizedChar :: "char \<Rightarrow> bool" where
  "isSanitizedChar c =
     (let n = (of_char c :: nat)
      in (97 \<le> n \<and> n \<le> 122) \<or> (65 \<le> n \<and> n \<le> 90) \<or> (48 \<le> n \<and> n \<le> 57) \<or>
         isSpace c \<or> c = CHR ''-'' \<or> c = CHR ''_'')"

function replaceRuns :: "(char \<Rightarrow> bool) \<Rightarrow> char \<Rightarrow> string \<Rightarrow> string" where
  "replaceRuns P r [] = []"
| "replaceRuns P r (c # s) =
     (if P c then r # replaceRuns P r (dropWhile P s) else c # replaceRuns P r s)"
  by pat_completeness auto
termination
  by (relation "measure (\<lambda>(P, r, s). length s)")
     (auto simp: le_imp_less_Suc length_dropWhile_le)

definition sanitizeName :: "string \<Rightarrow> string" where
  "sanitizeName name =
     toLowerCase (replaceRuns isSpace CHR ''-'' (filter isSanitizedChar (trim name)))"

definition createBasicConfig :: "string \<Rightarrow> string \<Rightarrow> CoreServerConfig" where
  "createBasicConfig name description =
     \<lparr> cc_name = sanitizeName name, cc_description = description,
       cc_dependencies = [''@modelcontextprotocol/sdk'', ''zod''],
       cc_customTools = [], cc_integrations = [] \<rparr>"

definition addTool :: "CoreServerConfig \<Rightarrow> CoreGeneratedTool \<Rightarrow> CoreServerConfig" where
  "addTool config tool = config\<lparr> cc_customTools := cc_customTools config @ [tool] \<rparr>"

definition addIntegration ::
    "CoreServerConfig \<Rightarrow> CoreIntegrationConfig \<Rightarrow> CoreServerConfig" where
  "addIntegration config integration =
     config\<lparr> cc_integrations := cc_integrations config @ [integration] \<rparr>"

definition addDependency :: "CoreServerConfig \<Rightarrow> string \<Rightarrow> CoreServerConfig" where
  "addDependency config dependency =
     config\<lparr> cc_dependencies := foldl setAdd [] (cc_dependencies config @ [dependency]) \<rparr>"

definition createTool ::
    "string \<Rightarrow> string \<Rightarrow> (string \<times> json) list \<Rightarrow> string option \<Rightarrow> CoreGeneratedTool" where
  "createTool name description inputSchema implementation =
     \<lparr> ct_name = sanitizeName name, ct_description = description,
       ct_inputSchema = Some (JObj [(''type'', JStr ''object''),
         (''properties'', JObj inputSchema),
         (''required'', JArr (map (\<lambda>(key, _). JStr key) inputSchema))]),
       ct_implementation = implementation \<rparr>"

definition createIntegration ::
    "string \<Rightarrow> string \<Rightarrow> string list option \<Rightarrow> IntegrationMethod list option
      \<Rightarrow> CoreIntegrationConfig" where
  "createIntegration name description envVars methods =
     \<lparr> ci_name = sanitizeName name, ci_description = description,
       ci_envVars = envVars, ci_methods = methods \<rparr>"

text \<open>
  \<open>validateConfig\<close> collects messages in the order the source pushes them. The two
  duplicate checks stand inside the callback of \<open>config.integrations.forEach\<close>, so they
  run once for every integration. \<open>new Set(names).size\<close> is the number of distinct names.
\<close>

definition truthy :: "json option \<Rightarrow> bool" where
  "truthy v =
     (case v of
        None \<Rightarrow> False
      | Some JNull \<Rightarrow> False
      | Some (JBool b) \<Rightarrow> b
      | Some (JNum n) \<Rightarrow> n \<noteq> 0
      | Some (JStr s) \<Rightarrow> s \<noteq> []
      | Some (JArr _) \<Rightarrow> True
      | Some (JObj _) \<Rightarrow> True)"

definition quoted :: "string \<Rightarrow> string" where
  "quoted s = [CHR 0x22] @ s @ [CHR 0x22]"

definition toolMessages :: "nat \<times> CoreGeneratedTool \<Rightarrow> string list" where
  "toolMessages it =
     (case it of (index, tool) \<Rightarrow>
        (if trim (ct_name tool) = []
         then [''Tool at index '' @ showNat index @ '' is missing a name''] else []) @
        (if trim (ct_description tool) = []
         then [''Tool '' @ quoted (ct_name tool) @ '' is missing a description''] else []) @
        (if \<not> truthy (ct_inputSchema tool)
         then [''Tool '' @ quoted (ct_name tool) @ '' is missing input schema''] else []))"

definition integrationMessages ::
    "CoreServerConfig \<Rightarrow> nat \<times> CoreIntegrationConfig \<Rightarrow> string list" where
  "integrationMessages config ii =
     (case ii of (index, integration) \<Rightarrow>
        (let toolNames = map (\<lambda>t. toLowerCase (ct_name t)) (cc_customTools config);
             integrationNames = map (\<lambda>i. toLowerCase (ci_name i)) (cc_integrations config)
         in (if trim (ci_name integration) = []
             then [''Integration at index '' @ showNat index @ '' is missing a name''] else []) @
            (if trim (ci_description integration) = []
             then [''Integration '' @ quoted (ci_name integration) @
                   '' is missing a description''] else []) @
            (if length toolNames \<noteq> length (remdups toolNames)
             then [''Duplicate tool names detected''] else []) @
            (if length integrationNames \<noteq> length (remdups integrationNames)
             then [''Duplicate integration names detected''] else [])))"

definition validateConfig :: "CoreServerConfig \<Rightarrow> string list" where
  "validateConfig config =
     (if trim (cc_name config) = [] then [''Server name is required''] else []) @
     (if trim (cc_description config) = [] then [''Server description is required''] else []) @
     concat (map toolMessages (enumerate 0 (cc_customTools config))) @
     concat (map (integrationMessages config) (enumerate 0 (cc_integrations config)))"

section \<open>The template engine (class TemplateEngine)\<close>

text \<open>
  The four case helpers. In \<open>camelCase\<close> and \<open>pascalCase\<close> every maximal run of hyphens,
  underscores and white space is removed together with the character after it, which is
  put back in upper case; then the first character is adjusted.
\<close>

definition isSeparator :: "char \<Rightarrow> bool" where
  "isSeparator c = (c = CHR ''-'' \<or> c = CHR ''_'' \<or> isSpace c)"

function capitalizeAfterRuns :: "string \<Rightarrow> string" where
  "capitalizeAfterRuns [] = []"
| "capitalizeAfterRuns (c # s) =
     (if isSeparator c
      then (case dropWhile isSeparator s of
              [] \<Rightarrow> []
            | d # t \<Rightarrow> toUpperCaseChar d # capitalizeAfterRuns t)
      else c # capitalizeAfterRuns s)"
  by pat_completeness auto
termination
proof (relation "measure length")
  fix c :: char and s t :: string and d :: char
  assume "dropWhile isSeparator s = d # t"
  then have "length (d # t) \<le> length s"
    by (metis length_dropWhile_le)
  then show "(t, c # s) \<in> measure length"
    by simp
qed auto

definition camelCase :: "string \<Rightarrow> string" where
  "camelCase str =
     (case capitalizeAfterRuns str of [] \<Rightarrow> [] | c # s \<Rightarrow> toLowerCaseChar c # s)"

definition pascalCase :: "string \<Rightarrow> string" where
  "pascalCase str =
     (case capitalizeAfterRuns str of [] \<Rightarrow> [] | c # s \<Rightarrow> toUpperCaseChar c # s)"

definition isLower :: "char \<Rightarrow> bool" where
  "isLower c = (let n = (of_char c :: nat) in 97 \<le> n \<and> n \<le> 122)"

definition isUpper :: "char \<Rightarrow> bool" where
  "isUpper c = (let n = (of_char c :: nat) in 65 \<le> n \<and> n \<le> 90)"

fun separateHumps :: "char \<Rightarrow> string \<Rightarrow> string" where
  "separateHumps r (a # b # s) =
     (if isLower a \<and> isUpper b then a # r # separateHumps r (b # s)
      else a # separateHumps r (b # s))"
| "separateHumps r s = s"

definition kebabCase :: "string \<Rightarrow> string" where
  "kebabCase str =
     toLowerCase (replaceRuns (\<lambda>c. isSpace c \<or> c = CHR ''_'') CHR ''-''
       (separateHumps CHR ''-'' str))"

definition constantCase :: "string \<Rightarrow> string" where
  "constantCase str =
     toUpperCase (replaceRuns (\<lambda>c. c = CHR ''-'' \<or> isSpace c) CHR ''_''
       (separateHumps CHR ''_'' str))"

text \<open>
  Handlebars and \<open>JSON.stringify\<close> are libraries outside the repository. The engine is a
  parameter: what a compiled template yields for the helpers registered by
  \<open>registerHelpers\<close>, the template text and the context object (the configuration, a tool
  spread together with the integrations, or an integration). The six template texts of
  the source are parameters as well.
\<close>

record Helpers =
  h_camelCase :: "string \<Rightarrow> string"
  h_pascalCase :: "string \<Rightarrow> string"
  h_kebabCase :: "string \<Rightarrow> string"
  h_constantCase :: "string \<Rightarrow> string"
  h_stringify :: "json \<Rightarrow> string"

record Handlebars =
  stringify :: "json \<Rightarrow> string"
  compileConfig :: "Helpers \<Rightarrow> string \<Rightarrow> CoreServerConfig \<Rightarrow> string"
  compileTool ::
    "Helpers \<Rightarrow> string \<Rightarrow> CoreGeneratedTool \<Rightarrow> CoreIntegrationConfig list \<Rightarrow> string"
  compileIntegration :: "Helpers \<Rightarrow> string \<Rightarrow> CoreIntegrationConfig \<Rightarrow> string"
  serverIndexTemplate :: string
  toolsIndexTemplate :: string
  readmeTemplate :: string
  toolFileTemplate :: string
  integrationFileTemplate :: string
  typesFileTemplate :: string

definition registerHelpers :: "Handlebars \<Rightarrow> Helpers" where
  "registerHelpers hb =
     \<lparr> h_camelCase = camelCase, h_pascalCase = pascalCase, h_kebabCase = kebabCase,
       h_constantCase = constantCase, h_stringify = stringify hb \<rparr>"

text \<open>
  Paths. A path of the model is absolute and normalized: the list of its segments below
  the root, the empty list being the root; the output directory is given in this form.
  \<open>path.join(outputDir, s1, ..., sn)\<close> (POSIX) concatenates its arguments with slashes and
  normalizes the result: every argument is cut at its slashes, an empty segment and \<open>.\<close>
  are dropped, and \<open>..\<close> takes the segment before it away (at the root, nothing). A
  file name that holds a slash is therefore several segments, and one that holds \<open>..\<close>
  segments can lead out of the output directory.
\<close>

type_synonym path = "string list"

definition joinSegment :: "path \<Rightarrow> string \<Rightarrow> path" where
  "joinSegment p segment =
     (if segment = [] \<or> segment = ''.'' then p
      else if segment = ''..'' then butlast p
      else p @ [segment])"

definition pathJoin :: "path \<Rightarrow> string list \<Rightarrow> path" where
  "pathJoin base arguments =
     foldl joinSegment base (concat (map (split CHR ''/'') arguments))"

text \<open>
  The file system: a POSIX tree without symbolic links, permissions or limits on names
  and space. It records the directories (the root is always one) and the content of
  every file, by path.

  \<open>fs.ensureDir\<close> creates the directory together with its missing ancestors. It fails
  when the path holds a null byte (\<open>EINVAL\<close> stands for the error of Node), when the path
  is a file (\<open>EEXIST\<close>) and when an ancestor is a file (\<open>ENOTDIR\<close>).

  \<open>fs.writeFile\<close> creates a file or replaces its content. It fails when the path holds a
  null byte, when the path is a directory (\<open>EISDIR\<close>), when an ancestor is a file
  (\<open>ENOTDIR\<close>) and when the parent directory does not exist (\<open>ENOENT\<close>).

  A call returns the error, if any, and the file system it leaves; a failed call changes
  nothing.
\<close>

datatype fsError = EINVAL | ENOENT | ENOTDIR | EISDIR | EEXIST

record FileSystem =
  fs_dirs :: "path set"
  fs_files :: "path \<rightharpoonup> string"

definition isDir :: "FileSystem \<Rightarrow> path \<Rightarrow> bool" where
  "isDir fs p = (p = [] \<or> p \<in> fs_dirs fs)"

definition isFile :: "FileSystem \<Rightarrow> path \<Rightarrow> bool" where
  "isFile fs p = (fs_files fs p \<noteq> None)"

definition hasNullByte :: "path \<Rightarrow> bool" where
  "hasNullByte p = (CHR 0x00 \<in> set (concat p))"

definition ensureDir :: "path \<Rightarrow> FileSystem \<Rightarrow> fsError option \<times> FileSystem" where
  "ensureDir p fs =
     (if hasNullByte p then (Some EINVAL, fs)
      else if isFile fs p then (Some EEXIST, fs)
      else if list_ex (isFile fs) (prefixes p) then (Some ENOTDIR, fs)
      else (None, fs\<lparr> fs_dirs := fs_dirs fs \<union> set (prefixes p) \<rparr>))"

definition writeFile :: "path \<Rightarrow> string \<Rightarrow> FileSystem \<Rightarrow> fsError option \<times> FileSystem" where
  "writeFile p content fs =
     (if hasNullByte p then (Some EINVAL, fs)
      else if isDir fs p then (Some EISDIR, fs)
      else if list_ex (isFile fs) (prefixes (butlast p)) then (Some ENOTDIR, fs)
      else if \<not> isDir fs (butlast p) then (Some ENOENT, fs)
      else (None, fs\<lparr> fs_files := (fs_files fs)(p \<mapsto> content) \<rparr>))"

text \<open>
  A sequence of awaited calls: the first one that fails ends the sequence with its
  error, and the file system stays as the calls before it left it.
\<close>

fun runSteps ::
    "(FileSystem \<Rightarrow> fsError option \<times> FileSystem) list \<Rightarrow> FileSystem
      \<Rightarrow> fsError option \<times> FileSystem" where
  "runSteps [] fs = (None, fs)"
| "runSteps (step # steps) fs =
     (case step fs of
        (None, fs') \<Rightarrow> runSteps steps fs'
      | (Some e, fs') \<Rightarrow> (Some e, fs'))"

definition generateServerIndex ::
    "Handlebars \<Rightarrow> CoreServerConfig \<Rightarrow> path \<Rightarrow> FileSystem
      \<Rightarrow> fsError option \<times> FileSystem" where
  "generateServerIndex hb config outputDir fs =
     writeFile (pathJoin outputDir [''src'', ''index.ts''])
       (compileConfig hb (registerHelpers hb) (serverIndexTemplate hb) config) fs"

text \<open>
  The own properties of a JavaScript object are enumerated, and printed by
  \<open>JSON.stringify\<close>, with the array indices first, in ascending numeric order, and the
  other keys after them in the order of their creation. An array index is the canonical
  decimal numeral of an integer below \<open>2\<^sup>3\<^sup>2 - 1\<close>. \<open>objectSet\<close> is the assignment
  \<open>obj[key] = value\<close> on an object given by its properties in the order of enumeration.
\<close>

definition isDigit :: "char \<Rightarrow> bool" where
  "isDigit c = (let n = (of_char c :: nat) in 48 \<le> n \<and> n \<le> 57)"

definition decimalValue :: "string \<Rightarrow> int" where
  "decimalValue s = foldl (\<lambda>n c. 10 * n + ((of_char c :: int) - 48)) 0 s"

definition isArrayIndex :: "string \<Rightarrow> bool" where
  "isArrayIndex key =
     (key \<noteq> [] \<and> list_all isDigit key \<and> (key = ''0'' \<or> hd key \<noteq> CHR ''0'') \<and>
      length key \<le> 10 \<and> decimalValue key < 4294967295)"

fun insertIndex :: "string \<Rightarrow> 'v \<Rightarrow> (string \<times> 'v) list \<Rightarrow> (string \<times> 'v) list" where
  "insertIndex key v [] = [(key, v)]"
| "insertIndex key v ((k, w) # properties) =
     (if isArrayIndex k \<and> decimalValue k < decimalValue key
      then (k, w) # insertIndex key v properties
      else (key, v) # (k, w) # properties)"

definition objectSet :: "(string \<times> 'v) list \<Rightarrow> string \<Rightarrow> 'v \<Rightarrow> (string \<times> 'v) list" where
  "objectSet properties key v =
     (if key \<in> fst ` set properties then AList.update key v properties
      else if isArrayIndex key then insertIndex key v properties
      else properties @ [(key, v)])"

definition packageJson :: "CoreServerConfig \<Rightarrow> json" where
  "packageJson config =
     JObj [(''name'', JStr (cc_name config)),
           (''version'', JStr ''1.0.0''),
           (''description'', JStr (cc_description config)),
           (''type'', JStr ''module''),
           (''main'', JStr ''dist/index.js''),
           (''scripts'', JObj [(''build'', JStr ''tsc''), (''dev'', JStr ''tsc --watch''),
              (''start'', JStr ''node dist/index.js''), (''clean'', JStr ''rm -rf dist'')]),
           (''dependencies'',
              JObj (foldl (\<lambda>acc dep. objectSet acc dep (JStr ''latest'')) []
                (cc_dependencies config))),
           (''devDependencies'', JObj [(''@types/node'', JStr ''^20.0.0''),
              (''typescript'', JStr ''^5.0.0'')])]"

definition generatePackageJson ::
    "Handlebars \<Rightarrow> CoreServerConfig \<Rightarrow> path \<Rightarrow> FileSystem
      \<Rightarrow> fsError option \<times> FileSystem" where
  "generatePackageJson hb config outputDir fs =
     writeFile (pathJoin outputDir [''package.json'']) (stringify hb (packageJson config)) fs"

definition tsConfig :: json where
  "tsConfig =
     JObj [(''compilerOptions'', JObj [
              (''target'', JStr ''ES2020''), (''module'', JStr ''ES2020''),
              (''moduleResolution'', JStr ''node''), (''esModuleInterop'', JBool True),
              (''allowSyntheticDefaultImports'', JBool True), (''strict'', JBool True),
              (''skipLibCheck'', JBool True),
              (''forceConsistentCasingInFileNames'', JBool True),
              (''outDir'', JStr ''./dist''), (''rootDir'', JStr ''./src''),
              (''declaration'', JBool True), (''sourceMap'', JBool True)]),
           (''include'', JArr [JStr ''src/**/*'']),
           (''exclude'', JArr [JStr ''node_modules'', JStr ''dist''])]"

definition generateTsConfig ::
    "Handlebars \<Rightarrow> path \<Rightarrow> FileSystem \<Rightarrow> fsError option \<times> FileSystem" where
  "generateTsConfig hb outputDir fs =
     writeFile (pathJoin outputDir [''tsconfig.json'']) (stringify hb tsConfig) fs"

definition generateToolsIndex ::
    "Handlebars \<Rightarrow> CoreServerConfig \<Rightarrow> path \<Rightarrow> FileSystem
      \<Rightarrow> fsError option \<times> FileSystem" where
  "generateToolsIndex hb config outputDir fs =
     writeFile (pathJoin outputDir [''src'', ''tools'', ''index.ts''])
       (compileConfig hb (registerHelpers hb) (toolsIndexTemplate hb) config) fs"

definition envContent :: "CoreServerConfig \<Rightarrow> string" where
  "envContent config =
     (let envVars = join [CHR 0x0A]
            (map (\<lambda>envVar. envVar @ ''='')
               (concat (map (\<lambda>integration. orEmpty (ci_envVars integration))
                  (cc_integrations config))))
      in ''# Environment variables for '' @ cc_name config @ [CHR 0x0A] @
         ''# Copy this file to .env and fill in your values'' @ [CHR 0x0A, CHR 0x0A] @
         envVars @ [CHR 0x0A])"

definition generateEnvFile ::
    "CoreServerConfig \<Rightarrow> path \<Rightarrow> FileSystem \<Rightarrow> fsError option \<times> FileSystem" where
  "generateEnvFile config outputDir fs =
     writeFile (pathJoin outputDir [''.env.example'']) (envContent config) fs"

definition generateReadme ::
    "Handlebars \<Rightarrow> CoreServerConfig \<Rightarrow> path \<Rightarrow> FileSystem
      \<Rightarrow> fsError option \<times> FileSystem" where
  "generateReadme hb config outputDir fs =
     writeFile (pathJoin outputDir [''README.md''])
       (compileConfig hb (registerHelpers hb) (readmeTemplate hb) config) fs"

text \<open>
  The file of a tool and the file of an integration: the file name is the kebab-cased
  name with the extension, handed to \<open>path.join\<close> as its last argument.
\<close>

definition generateToolFile ::
    "Handlebars \<Rightarrow> CoreGeneratedTool \<Rightarrow> CoreServerConfig \<Rightarrow> path \<Rightarrow> FileSystem
      \<Rightarrow> fsError option \<times> FileSystem" where
  "generateToolFile hb tool config outputDir fs =
     (let result = compileTool hb (registerHelpers hb) (toolFileTemplate hb) tool
                     (cc_integrations config);
          fileName = kebabCase (ct_name tool) @ ''.ts''
      in writeFile (pathJoin outputDir [''src'', ''tools'', fileName]) result fs)"

definition generateToolFiles ::
    "Handlebars \<Rightarrow> CoreServerConfig \<Rightarrow> path \<Rightarrow> FileSystem
      \<Rightarrow> fsError option \<times> FileSystem" where
  "generateToolFiles hb config outputDir fs =
     runSteps (map (\<lambda>tool. generateToolFile hb tool config outputDir)
       (cc_customTools config)) fs"

definition generateIntegrationFile ::
    "Handlebars \<Rightarrow> CoreIntegrationConfig \<Rightarrow> path \<Rightarrow> FileSystem
      \<Rightarrow> fsError option \<times> FileSystem" where
  "generateIntegrationFile hb integration outputDir fs =
     (let result = compileIntegration hb (registerHelpers hb) (integrationFileTemplate hb)
                     integration;
          fileName = kebabCase (ci_name integration) @ ''.ts''
      in writeFile (pathJoin outputDir [''src'', ''integrations'', fileName]) result fs)"

definition generateIntegrationFiles ::
    "Handlebars \<Rightarrow> CoreServerConfig \<Rightarrow> path \<Rightarrow> FileSystem
      \<Rightarrow> fsError option \<times> FileSystem" where
  "generateIntegrationFiles hb config outputDir fs =
     runSteps (map (\<lambda>integration. generateIntegrationFile hb integration outputDir)
       (cc_integrations config)) fs"

definition generateTypesFile ::
    "Handlebars \<Rightarrow> CoreServerConfig \<Rightarrow> path \<Rightarrow> FileSystem
      \<Rightarrow> fsError option \<times> FileSystem" where
  "generateTypesFile hb config outputDir fs =
     writeFile (pathJoin outputDir [''src'', ''types.ts''])
       (compileConfig hb (registerHelpers hb) (typesFileTemplate hb) config) fs"

definition generateServer ::
    "Handlebars \<Rightarrow> CoreServerConfig \<Rightarrow> path \<Rightarrow> FileSystem
      \<Rightarrow> fsError option \<times> FileSystem" where
  "generateServer hb config outputDir fs =
     runSteps
       [ensureDir outputDir,
        ensureDir (pathJoin outputDir [''src'']),
        ensureDir (pathJoin outputDir [''src'', ''tools'']),
        ensureDir (pathJoin outputDir [''src'', ''integrations'']),
        generateServerIndex hb config outputDir,
        generatePackageJson hb config outputDir,
        generateTsConfig hb outputDir,
        generateToolsIndex hb config outputDir,
        generateEnvFile config outputDir,
        generateReadme hb config outputDir,
        generateToolFiles hb config outputDir,
        generateIntegrationFiles hb config outputDir,
        generateTypesFile hb config outputDir] fs"

text \<open>
  \<open>generateValidatedServer\<close> throws when \<open>validateConfig\<close> reports anything, before anything
  is written; otherwise it renders, and an error of the file system is passed on.
\<close>

definition generateValidatedServer ::
    "Handlebars \<Rightarrow> CoreServerConfig \<Rightarrow> path \<Rightarrow> FileSystem
      \<Rightarrow> (string + fsError) option \<times> FileSystem" where
  "generateValidatedServer hb config outputDir fs =
     (let errors = validateConfig config
      in if length errors > 0
         then (Some (Inl (''Configuration validation failed:'' @ [CHR 0x0A] @
                          join [CHR 0x0A] errors)), fs)
         else (case generateServer hb config outputDir fs of
                 (None, fs') \<Rightarrow> (None, fs')
               | (Some e, fs') \<Rightarrow> (Some (Inr e), fs')))"

text \<open>
  The content of an output directory, relative to it: the directories and the files
  below \<open>outputDir\<close>, each under the path that remains when \<open>outputDir\<close> is taken off.
\<close>

definition outputTree :: "path \<Rightarrow> FileSystem \<Rightarrow> path set \<times> (path \<rightharpoonup> string)" where
  "outputTree outputDir fs =
     ({rel. isDir fs (outputDir @ rel)}, (\<lambda>rel. fs_files fs (outputDir @ rel)))"

text \<open>
  An output directory is unblocked when its path holds no null byte and neither the path
  nor one of its ancestors is a file: the directory exists or can be created.
\<close>

definition unblocked :: "FileSystem \<Rightarrow> path \<Rightarrow> bool" where
  "unblocked fs outputDir =
     (\<not> hasNullByte outputDir \<and> \<not> list_ex (isFile fs) (prefixes outputDir))"

section \<open>Statements of the specification, for comparison with the code\<close>

text \<open>
  The keyword table of the fallback analysis as the specification gives it: each row
  names the substrings that trigger it and the category it contributes; \<open>api\<close> is the
  default when no row fires.
\<close>

definition keywordTable :: "(string list \<times> string) list" where
  "keywordTable =
     [([''github''], ''api''),
      ([''slack''], ''notification''),
      ([''database'', ''sql''], ''database''),
      ([''file'', ''upload''], ''file''),
      ([''email''], ''notification'')]"

definition keywordCategories :: "string \<Rightarrow> string list" where
  "keywordCategories description =
     (let hits = concat (map (\<lambda>(keys, category).
                   if list_ex (jsIncludes (toLowerCase description)) keys then [category] else [])
                 keywordTable)
      in if hits = [] then [''api''] else hits)"

text \<open>
  The matcher as the specification words it: a candidate term and a keyword match when,
  ignoring case, either contains the other; a pattern offers its actions, its example
  phrases and its category name, an integration its id, name, display name and
  description.
\<close>

definition bidirectional :: "string \<Rightarrow> string \<Rightarrow> bool" where
  "bidirectional candidate keyword =
     (jsIncludes (toLowerCase candidate) (toLowerCase keyword) \<or>
      jsIncludes (toLowerCase keyword) (toLowerCase candidate))"

definition specFindPatterns :: "string list \<Rightarrow> string list \<Rightarrow> ToolPattern list" where
  "specFindPatterns keywords actions =
     filter (\<lambda>pattern. list_ex (\<lambda>keyword. list_ex (\<lambda>candidate. bidirectional candidate keyword)
         (p_actions pattern @ orEmpty (p_examples pattern) @ [p_category pattern]))
       (keywords @ actions)) TOOL_PATTERNS"

definition specFindIntegrations :: "string list \<Rightarrow> IntegrationConfig list" where
  "specFindIntegrations keywords =
     filter (\<lambda>integration. list_ex (\<lambda>keyword. list_ex (\<lambda>candidate. bidirectional candidate keyword)
         [i_id integration, i_name integration, i_displayName integration,
          i_description integration]) keywords) INTEGRATIONS"


section \<open>Notions used in the proofs about the renderer\<close>

text \<open>
  Two file systems agree on two output directories when both directories are unblocked
  and hold the same content. Two steps of the renderer, one for each directory,
  correspond when they take agreeing file systems to the same outcome and to agreeing
  file systems.
\<close>

definition agree :: "path \<Rightarrow> FileSystem \<Rightarrow> path \<Rightarrow> FileSystem \<Rightarrow> bool" where
  "agree d1 fs1 d2 fs2 =
     (unblocked fs1 d1 \<and> unblocked fs2 d2 \<and> outputTree d1 fs1 = outputTree d2 fs2)"

definition correspond ::
    "path \<Rightarrow> path \<Rightarrow> (FileSystem \<Rightarrow> fsError option \<times> FileSystem)
      \<Rightarrow> (FileSystem \<Rightarrow> fsError option \<times> FileSystem) \<Rightarrow> bool" where
  "correspond d1 d2 step1 step2 =
     (\<forall>fs1 fs2. agree d1 fs1 d2 fs2 \<longrightarrow>
        fst (step1 fs1) = fst (step2 fs2) \<and> agree d1 (snd (step1 fs1)) d2 (snd (step2 fs2)))"

section \<open>Concrete inputs\<close>

text \<open>
  Environments used to run the resolver on concrete descriptions. In \<open>offline\<close> both
  language-model capabilities fail; in \<open>sameName\<close> the analysis fails and every synthesis
  answers with the same tool name; in \<open>online\<close> the analysis names every category, five
  integrations and no service, and every synthesis answers; in \<open>nullAnswer\<close> the analysis
  answers with the JSON text \<open>null\<close>; in \<open>weatherEnv\<close> it answers with an analysis that
  matches no catalog pattern.
\<close>

definition toolAnswer :: "string \<Rightarrow> ToolData" where
  "toolAnswer name =
     \<lparr> td_name = name, td_description = ''generated'', td_inputSchema = JObj [],
       td_outputSchema = JObj [], td_implementation = ''return {};'' \<rparr>"

definition offline :: Capabilities where
  "offline =
     \<lparr> analyze = (\<lambda>description. CallFailed),
       synthesize = (\<lambda>analysis pattern. CallFailed),
       dateNow = (\<lambda>pattern. 0), isoNow = ''2024-01-01T00:00:00.000Z'' \<rparr>"

definition sameName :: Capabilities where
  "sameName = offline\<lparr> synthesize := (\<lambda>analysis pattern. Parsed (toolAnswer ''Tool'')) \<rparr>"

definition broadAnalysis :: Analysis where
  "broadAnalysis =
     \<lparr> summary = Some ''Everything at once'', primaryActions = Some [],
       dataTypes = Some [], services = Some [], complexity = Some ''complex'',
       toolCategories = Some [''api'', ''file'', ''database'', ''notification'',
         ''processing'', ''auth''],
       suggestedIntegrations = Some [''github'', ''slack'', ''postgresql'', ''sendgrid'',
         ''twilio''],
       keyFeatures = Some [], estimatedTools = Some 6 \<rparr>"

definition online :: Capabilities where
  "online =
     offline\<lparr> analyze := (\<lambda>description. Parsed broadAnalysis),
              synthesize := (\<lambda>analysis pattern. Parsed (toolAnswer (p_id pattern))) \<rparr>"




definition scenarioA :: string where
  "scenarioA = ''send Slack notifications when a GitHub issue is created''"


text \<open>
  The configuration of the specification's scenario D: a server, a weather tool created
  under the name \<open>Get Weather\<close> and again under the name \<open>get-weather\<close>, and one
  integration.
\<close>

definition getWeather :: CoreGeneratedTool where
  "getWeather =
     createTool ''Get Weather'' ''Current weather for a city''
       [(''city'', JObj [(''type'', JStr ''string'')])] None"

definition getWeatherKebab :: CoreGeneratedTool where
  "getWeatherKebab =
     createTool ''get-weather'' ''Current weather for a city''
       [(''city'', JObj [(''type'', JStr ''string'')])] None"

definition weatherConfig :: CoreServerConfig where
  "weatherConfig = createBasicConfig ''Weather Server'' ''Weather tools''"

definition weatherIntegration :: CoreIntegrationConfig where
  "weatherIntegration =
     createIntegration ''Open Meteo'' ''Weather data'' (Some [''METEO_API_KEY'']) None"

text \<open>
  A template engine that writes the template text followed by one value of the context,
  for running the renderer on a concrete configuration.
\<close>

definition plainEngine :: Handlebars where
  "plainEngine =
     \<lparr> stringify = (\<lambda>value. ''{}''),
       compileConfig = (\<lambda>helpers template config. template @ cc_name config),
       compileTool = (\<lambda>helpers template tool integrations.
          template @ h_camelCase helpers (ct_name tool)),
       compileIntegration = (\<lambda>helpers template integration.
          template @ h_pascalCase helpers (ci_name integration)),
       serverIndexTemplate = ''index:'', toolsIndexTemplate = ''tools:'',
       readmeTemplate = ''readme:'', toolFileTemplate = ''tool:'',
       integrationFileTemplate = ''integration:'', typesFileTemplate = ''types:'' \<rparr>"

definition weatherServer :: CoreServerConfig where
  "weatherServer = addTool (addIntegration weatherConfig weatherIntegration) getWeather"

text \<open>
  Two sibling directories \<open>/work/first\<close> and \<open>/work/second\<close>, both empty, and a
  configuration with one tool whose name leads from the tools directory of the one into
  the other.
\<close>

definition firstDir :: path where
  "firstDir = [''work'', ''first'']"

definition secondDir :: path where
  "secondDir = [''work'', ''second'']"

definition siblings :: FileSystem where
  "siblings =
     \<lparr> fs_dirs = set [[], [''work''], [''work'', ''first''], [''work'', ''second'']],
       fs_files = Map.empty \<rparr>"

definition escapingTool :: CoreGeneratedTool where
  "escapingTool =
     \<lparr> ct_name = ''../../../second/evil'', ct_description = ''Leaves the output directory'',
       ct_inputSchema = Some (JObj []), ct_implementation = None \<rparr>"

definition escapingServer :: CoreServerConfig where
  "escapingServer = addTool weatherConfig escapingTool"

section \<open>Auxiliary facts\<close>

subsection \<open>Deduplication by key\<close>

lemma findIndex_Some_iff:
  "findIndex P xs = Some i \<longleftrightarrow> i < length xs \<and> P (xs ! i) \<and> (\<forall>j<i. \<not> P (xs ! j))"
proof (induction xs arbitrary: i)
  case Nil
  then show ?case by simp
next
  case (Cons x xs)
  show ?case
  proof (cases "P x")
    case True
    then show ?thesis by (cases i) auto
  next
    case False
    then show ?thesis
      by (cases i) (auto simp: Cons.IH less_Suc_eq_0_disj nth_Cons')
  qed
qed

lemma uniqueBy_Nil: "uniqueBy key [] = []"
  by (simp add: uniqueBy_def)

lemma Some_Suc_map_option: "(Some (Suc a) = map_option Suc z) = (Some a = z)"
  by (cases z) auto

lemma uniqueBy_Cons:
  "uniqueBy key (x # xs) = x # filter (\<lambda>y. key y \<noteq> key x) (uniqueBy key xs)"
proof -
  let ?P = "\<lambda>(index, y). Some index = findIndex (\<lambda>z. key z = key y) (x # xs)"
  let ?Q = "\<lambda>(index, y). Some index = findIndex (\<lambda>z. key z = key y) xs"
  let ?R = "\<lambda>(index :: nat, y). key y \<noteq> key x"
  have "filter ?P (enumerate (Suc 0) xs) =
        map (apfst Suc) (filter (?P \<circ> apfst Suc) (enumerate 0 xs))"
    by (simp only: enumerate_Suc_eq filter_map)
  also have "filter (?P \<circ> apfst Suc) (enumerate 0 xs) = filter ?R (filter ?Q (enumerate 0 xs))"
    unfolding filter_filter
    by (rule filter_cong) (auto simp: Some_Suc_map_option)
  finally have step: "filter ?P (enumerate (Suc 0) xs) =
      map (apfst Suc) (filter ?R (filter ?Q (enumerate 0 xs)))" .
  have snd_filter: "map snd (filter ?R ps) = filter (\<lambda>y. key y \<noteq> key x) (map snd ps)"
    for ps :: "(nat \<times> 'a) list"
    by (induction ps) auto
  have "uniqueBy key (x # xs) = x # map snd (filter ?P (enumerate (Suc 0) xs))"
    by (simp add: uniqueBy_def)
  also have "map snd (filter ?P (enumerate (Suc 0) xs)) =
      map snd (filter ?R (filter ?Q (enumerate 0 xs)))"
    by (simp only: step map_map) (simp add: comp_def)
  also have "\<dots> = filter (\<lambda>y. key y \<noteq> key x) (uniqueBy key xs)"
    by (simp only: snd_filter uniqueBy_def)
  finally show ?thesis .
qed

lemma image_filter_neq: "key ` set (filter (\<lambda>y. key y \<noteq> k) ys) = key ` set ys - {k}"
  by auto

lemma set_uniqueBy_subset: "set (uniqueBy key xs) \<subseteq> set xs"
  by (induction xs) (auto simp: uniqueBy_Nil uniqueBy_Cons)

lemma image_uniqueBy: "key ` set (uniqueBy key xs) = key ` set xs"
proof (induction xs)
  case Nil
  show ?case by (simp add: uniqueBy_Nil)
next
  case (Cons x xs)
  have "key ` set (uniqueBy key (x # xs)) = insert (key x) (key ` set (uniqueBy key xs) - {key x})"
    by (simp only: uniqueBy_Cons list.set image_insert image_filter_neq)
  then show ?case by (simp add: Cons.IH)
qed

lemma distinct_uniqueBy: "distinct (map key (uniqueBy key xs))"
  by (induction xs) (auto simp: uniqueBy_Nil uniqueBy_Cons distinct_map_filter)

lemma uniqueBy_eq_Nil: "uniqueBy key xs = [] \<longleftrightarrow> xs = []"
  by (cases xs) (auto simp: uniqueBy_Nil uniqueBy_Cons)

lemma uniqueBy_distinct: "distinct (map key xs) \<Longrightarrow> uniqueBy key xs = xs"
proof (induction xs)
  case Nil
  show ?case by (simp add: uniqueBy_Nil)
next
  case (Cons x xs)
  from Cons have "uniqueBy key xs = xs"
    by simp
  moreover from Cons.prems have "\<forall>y\<in>set xs. key y \<noteq> key x"
    by (auto simp: image_iff)
  ultimately show ?case by (simp add: uniqueBy_Cons filter_id_conv)
qed

lemma set_uniqueBy_inj:
  assumes "inj_on key (set xs)"
  shows "set (uniqueBy key xs) = set xs"
proof
  show "set (uniqueBy key xs) \<subseteq> set xs"
    by (rule set_uniqueBy_subset)
  show "set xs \<subseteq> set (uniqueBy key xs)"
  proof
    fix x assume x: "x \<in> set xs"
    then have "key x \<in> key ` set (uniqueBy key xs)"
      by (simp add: image_uniqueBy)
    then obtain y where y: "y \<in> set (uniqueBy key xs)" "key y = key x"
      by auto
    with set_uniqueBy_subset[of key xs] have "y \<in> set xs"
      by auto
    with assms x y(2) have "y = x"
      by (auto dest: inj_onD)
    with y(1) show "x \<in> set (uniqueBy key xs)"
      by simp
  qed
qed

subsection \<open>The configurations that the resolver returns\<close>

lemma map_sum_Inr:
  assumes "map_sum f g x = Inr y"
  obtains c where "x = Inr c" and "g c = y"
  using assms by (cases x) auto

lemma selectIntegrations_Inr:
  assumes "selectIntegrations analysis = Inr integrations"
  shows "orEmpty (services analysis) = [] \<and>
         integrations = take 3 (uniqueBy i_id (suggestedSelection analysis))"
  using assms by (auto simp: selectIntegrations_def Let_def split: list.splits)

lemma selectIntegrations_service:
  assumes "orEmpty (services analysis) \<noteq> []"
  shows "selectIntegrations analysis = Inl missingFunctionMessage"
  using assms by (auto simp: selectIntegrations_def Let_def split: list.splits)

lemma generateServerConfig_returned:
  assumes "generateServerConfig env description = Inr cfg"
  obtains analysis where
    "analyzeRequiredTools env description = Some analysis"
    and "orEmpty (services analysis) = []"
    and "sc_patterns cfg = selectToolPatterns analysis"
    and "sc_integrations cfg = take 3 (uniqueBy i_id (suggestedSelection analysis))"
    and "sc_customTools cfg = generateCustomTools env analysis (sc_patterns cfg)"
    and "sc_dependencies cfg = calculateDependencies (sc_patterns cfg) (sc_integrations cfg)"
    and "sc_environmentVariables cfg = generateEnvironmentVariables (sc_integrations cfg)"
    and "aiAnalysis (sc_metadata cfg) = analysis"
proof -
  from assms obtain built where built: "buildServerConfig env description = Inr built"
    and cfg: "cfg = built"
    by (cases "buildServerConfig env description") (auto simp: generateServerConfig_def)
  from built obtain analysis where a: "analyzeRequiredTools env description = Some analysis"
    by (cases "analyzeRequiredTools env description") (auto simp: buildServerConfig_def)
  from built a obtain integrations where i: "selectIntegrations analysis = Inr integrations"
    by (cases "selectIntegrations analysis") (auto simp: buildServerConfig_def Let_def)
  note sel = selectIntegrations_Inr[OF i]
  from built a i cfg have
    "cfg = \<lparr> sc_name = generateServerName analysis,
             sc_description = orString (summary analysis) description,
             sc_patterns = selectToolPatterns analysis,
             sc_integrations = integrations,
             sc_customTools = generateCustomTools env analysis (selectToolPatterns analysis),
             sc_dependencies = calculateDependencies (selectToolPatterns analysis) integrations,
             sc_environmentVariables = generateEnvironmentVariables integrations,
             sc_metadata = \<lparr> generatedAt = isoNow env, aiAnalysis = analysis,
               originalDescription = description \<rparr> \<rparr>"
    by (simp add: buildServerConfig_def Let_def)
  with sel a that show thesis
    by simp
qed


lemma generateServerConfig_service:
  assumes "analyzeRequiredTools env description = Some analysis"
    and "orEmpty (services analysis) \<noteq> []"
  shows "generateServerConfig env description =
           Inl (''AI Generation failed: '' @ missingFunctionMessage)"
  using assms
  by (simp add: generateServerConfig_def buildServerConfig_def Let_def
        selectIntegrations_service)

lemma suggestedSelection_catalog: "set (suggestedSelection analysis) \<subseteq> set INTEGRATIONS"
proof -
  have "x \<in> set INTEGRATIONS"
    if "find (\<lambda>i. i_id i = integrationId) INTEGRATIONS = Some x" for x integrationId
    using that by (auto simp: find_Some_iff)
  then show ?thesis
    by (auto simp: suggestedSelection_def split: option.splits)
qed

lemma returned_integrations_catalog:
  assumes "generateServerConfig env description = Inr cfg"
  shows "set (sc_integrations cfg) \<subseteq> set INTEGRATIONS"
proof -
  from assms obtain analysis
    where "sc_integrations cfg = take 3 (uniqueBy i_id (suggestedSelection analysis))"
    by (rule generateServerConfig_returned)
  moreover have "set (take 3 (uniqueBy i_id (suggestedSelection analysis))) \<subseteq>
      set (suggestedSelection analysis)"
    using set_take_subset set_uniqueBy_subset by (rule subset_trans)
  ultimately show ?thesis
    using suggestedSelection_catalog[of analysis] by auto
qed

subsection \<open>Pattern selection never returns an empty list\<close>









subsection \<open>Dependencies\<close>

lemma set_setAdd: "set (setAdd s x) = insert x (set s)"
  by (auto simp: setAdd_def)

lemma distinct_setAdd: "distinct s \<Longrightarrow> distinct (setAdd s x)"
  by (auto simp: setAdd_def)

lemma set_foldl_setAdd: "set (foldl setAdd s xs) = set s \<union> set xs"
  by (induction xs arbitrary: s) (auto simp: set_setAdd)

lemma distinct_foldl_setAdd: "distinct s \<Longrightarrow> distinct (foldl setAdd s xs)"
  by (induction xs arbitrary: s) (auto simp: distinct_setAdd)

lemma set_foldl_nested:
  "set (foldl (\<lambda>deps x. foldl setAdd deps (f x)) s xs) = set s \<union> (\<Union>x\<in>set xs. set (f x))"
  by (induction xs arbitrary: s) (auto simp: set_foldl_setAdd)

lemma distinct_foldl_nested:
  "distinct s \<Longrightarrow> distinct (foldl (\<lambda>deps x. foldl setAdd deps (f x)) s xs)"
  by (induction xs arbitrary: s) (auto simp: distinct_foldl_setAdd)

lemma set_calculateDependencies:
  "set (calculateDependencies patterns integrations) =
     {''@modelcontextprotocol/sdk'', ''zod''} \<union>
     (\<Union>p\<in>set patterns. set (p_dependencies p)) \<union>
     (\<Union>i\<in>set integrations. set (i_dependencies i))"
  by (simp add: calculateDependencies_def Let_def set_foldl_nested set_setAdd insert_commute)

lemma distinct_calculateDependencies:
  "distinct (calculateDependencies patterns integrations)"
  by (simp add: calculateDependencies_def Let_def distinct_foldl_nested distinct_setAdd)

text \<open>
  Claim C2. In every configuration that the resolver returns, the dependency list holds,
  without duplicates, exactly the two core dependencies, the declared dependencies of
  every selected pattern and the declared dependencies of every selected integration.
\<close>

theorem dependencies_union:
  "generateServerConfig env description = Inr cfg \<Longrightarrow>
   set (sc_dependencies cfg) =
     {''@modelcontextprotocol/sdk'', ''zod''} \<union>
     (\<Union>p\<in>set (sc_patterns cfg). set (p_dependencies p)) \<union>
     (\<Union>i\<in>set (sc_integrations cfg). set (i_dependencies i)) \<and>
   distinct (sc_dependencies cfg)"
proof -
  assume "generateServerConfig env description = Inr cfg"
  then obtain analysis where
    "sc_dependencies cfg = calculateDependencies (sc_patterns cfg) (sc_integrations cfg)"
    by (rule generateServerConfig_returned)
  then show ?thesis
    by (simp only: set_calculateDependencies distinct_calculateDependencies simp_thms)
qed

theorem dependencies_union_witness:
  "\<exists>cfg. generateServerConfig offline ''email me the sql report'' = Inr cfg \<and>
     map p_id (sc_patterns cfg) = [''database-query'', ''notification-sender''] \<and>
     map i_id (sc_integrations cfg) = [''postgresql'', ''sendgrid''] \<and>
     sc_dependencies cfg =
       [''@modelcontextprotocol/sdk'', ''zod'', ''pg'', ''mysql2'', ''sqlite3'', ''nodemailer'',
        ''@slack/web-api'', ''twilio'', ''@types/pg'', ''@sendgrid/mail''] \<and>
     set (sc_dependencies cfg) =
       {''@modelcontextprotocol/sdk'', ''zod''} \<union>
       (\<Union>p\<in>set (sc_patterns cfg). set (p_dependencies p)) \<union>
       (\<Union>i\<in>set (sc_integrations cfg). set (i_dependencies i)) \<and>
     distinct (sc_dependencies cfg)"
proof -
  have "map_sum id (\<lambda>cfg. (map p_id (sc_patterns cfg), map i_id (sc_integrations cfg),
                      sc_dependencies cfg))
     (generateServerConfig offline ''email me the sql report'') =
   Inr ([''database-query'', ''notification-sender''], [''postgresql'', ''sendgrid''],
        [''@modelcontextprotocol/sdk'', ''zod'', ''pg'', ''mysql2'', ''sqlite3'', ''nodemailer'',
         ''@slack/web-api'', ''twilio'', ''@types/pg'', ''@sendgrid/mail''])"
    by code_simp
  then obtain cfg where r: "generateServerConfig offline ''email me the sql report'' = Inr cfg"
    and c: "(map p_id (sc_patterns cfg), map i_id (sc_integrations cfg), sc_dependencies cfg) =
      ([''database-query'', ''notification-sender''], [''postgresql'', ''sendgrid''],
        [''@modelcontextprotocol/sdk'', ''zod'', ''pg'', ''mysql2'', ''sqlite3'', ''nodemailer'',
         ''@slack/web-api'', ''twilio'', ''@types/pg'', ''@sendgrid/mail''])"
    by (rule map_sum_Inr)
  from c have c1: "map p_id (sc_patterns cfg) = [''database-query'', ''notification-sender'']"
    and c2: "map i_id (sc_integrations cfg) = [''postgresql'', ''sendgrid'']"
    and c3: "sc_dependencies cfg =
       [''@modelcontextprotocol/sdk'', ''zod'', ''pg'', ''mysql2'', ''sqlite3'', ''nodemailer'',
        ''@slack/web-api'', ''twilio'', ''@types/pg'', ''@sendgrid/mail'']"
    by simp_all
  note u = dependencies_union[OF r]
  from u have u1: "set (sc_dependencies cfg) =
       {''@modelcontextprotocol/sdk'', ''zod''} \<union>
       (\<Union>p\<in>set (sc_patterns cfg). set (p_dependencies p)) \<union>
       (\<Union>i\<in>set (sc_integrations cfg). set (i_dependencies i))"
    by (rule conjunct1)
  from u have u2: "distinct (sc_dependencies cfg)"
    by (rule conjunct2)
  show ?thesis
    by (rule exI[of _ cfg]) (intro conjI r c1 c2 c3 u1 u2)
qed

subsection \<open>The fallback analysis\<close>

lemmas fallbackRules =
  githubRule_def slackRule_def databaseRule_def fileRule_def emailRule_def defaultRule_def

lemma rules_complexity:
  "complexity (githubRule l a) = complexity a" "complexity (slackRule l a) = complexity a"
  "complexity (databaseRule l a) = complexity a" "complexity (fileRule l a) = complexity a"
  "complexity (emailRule l a) = complexity a" "complexity (defaultRule a) = complexity a"
  by (simp_all add: fallbackRules)

lemma rules_primaryActions:
  "primaryActions (githubRule l a) = primaryActions a"
  "primaryActions (slackRule l a) = primaryActions a"
  "primaryActions (databaseRule l a) = primaryActions a"
  "primaryActions (fileRule l a) = primaryActions a"
  "primaryActions (emailRule l a) = primaryActions a"
  "primaryActions (defaultRule a) = primaryActions a"
  by (simp_all add: fallbackRules)

lemma rules_toolCategories:
  "toolCategories (githubRule l a) =
     (if jsIncludes l ''github'' then Some (orEmpty (toolCategories a) @ [''api''])
      else toolCategories a)"
  "toolCategories (slackRule l a) =
     (if jsIncludes l ''slack'' then Some (orEmpty (toolCategories a) @ [''notification''])
      else toolCategories a)"
  "toolCategories (databaseRule l a) =
     (if jsIncludes l ''database'' \<or> jsIncludes l ''sql''
      then Some (orEmpty (toolCategories a) @ [''database'']) else toolCategories a)"
  "toolCategories (fileRule l a) =
     (if jsIncludes l ''file'' \<or> jsIncludes l ''upload''
      then Some (orEmpty (toolCategories a) @ [''file'']) else toolCategories a)"
  "toolCategories (emailRule l a) =
     (if jsIncludes l ''email'' then Some (orEmpty (toolCategories a) @ [''notification''])
      else toolCategories a)"
  "toolCategories (defaultRule a) =
     (if orEmpty (toolCategories a) = [] then Some (orEmpty (toolCategories a) @ [''api''])
      else toolCategories a)"
  by (simp_all add: fallbackRules push_def)

lemma rules_services:
  "services (githubRule l a) =
     (if jsIncludes l ''github'' then Some (orEmpty (services a) @ [''GitHub''])
      else services a)"
  "services (slackRule l a) =
     (if jsIncludes l ''slack'' then Some (orEmpty (services a) @ [''Slack''])
      else services a)"
  "services (databaseRule l a) = services a" "services (fileRule l a) = services a"
  "services (emailRule l a) = services a" "services (defaultRule a) = services a"
  by (simp_all add: fallbackRules push_def)

lemma fallback_services:
  "services (createFallbackAnalysis d) =
     Some ((if jsIncludes (toLowerCase d) ''github'' then [''GitHub''] else []) @
           (if jsIncludes (toLowerCase d) ''slack'' then [''Slack''] else []))"
  by (simp add: createFallbackAnalysis_def Let_def rules_services orEmpty_def)

lemma fallback_complexity: "complexity (createFallbackAnalysis d) = Some ''simple''"
  by (simp add: createFallbackAnalysis_def Let_def rules_complexity)

lemma fallback_primaryActions: "primaryActions (createFallbackAnalysis d) = Some []"
  by (simp add: createFallbackAnalysis_def Let_def rules_primaryActions)

lemma fallback_toolCategories:
  "toolCategories (createFallbackAnalysis d) = Some (keywordCategories d)"
  by (simp add: createFallbackAnalysis_def keywordCategories_def keywordTable_def Let_def
        rules_toolCategories orEmpty_def)

lemma keywordCategories_range:
  "keywordCategories d \<noteq> [] \<and>
   set (keywordCategories d) \<subseteq> {''api'', ''notification'', ''database'', ''file''}"
  by (simp add: keywordCategories_def keywordTable_def Let_def)

lemma distinct_pattern_ids: "distinct (map p_id TOOL_PATTERNS)"
  by (simp add: TOOL_PATTERNS_def)

lemma inj_on_pattern_ids: "inj_on p_id (set TOOL_PATTERNS)"
  using distinct_pattern_ids by (simp add: distinct_map)

lemma table_category_patterns:
  "length (filter (\<lambda>p. p_category p \<in> {''api'', ''notification'', ''database'', ''file''})
     TOOL_PATTERNS) = 4"
  by (simp add: TOOL_PATTERNS_def)

lemma table_category_has_pattern:
  assumes "c \<in> {''api'', ''notification'', ''database'', ''file''}"
  shows "filter (\<lambda>p. p_category p = c) TOOL_PATTERNS \<noteq> []"
  using assms by (auto simp: TOOL_PATTERNS_def)

lemma selectedPatterns_by_category:
  assumes "toolCategories a = Some cats" and "primaryActions a = Some []"
  shows "selectedPatterns a =
           concat (map (\<lambda>c. filter (\<lambda>p. p_category p = c) TOOL_PATTERNS) cats)"
  using assms by (simp add: selectedPatterns_def orEmpty_def)

lemma table_pattern_categories:
  assumes cats: "cats \<noteq> []" "set cats \<subseteq> {''api'', ''notification'', ''database'', ''file''}"
    and a: "toolCategories a = Some cats" "primaryActions a = Some []"
  shows "p_category ` set (selectToolPatterns a) = set cats"
proof -
  let ?T = "{''api'', ''notification'', ''database'', ''file''}"
  let ?sel = "selectedPatterns a"
  have sel: "?sel = concat (map (\<lambda>c. filter (\<lambda>p. p_category p = c) TOOL_PATTERNS) cats)"
    using a by (rule selectedPatterns_by_category)
  have sub: "set ?sel \<subseteq> set (filter (\<lambda>p. p_category p \<in> ?T) TOOL_PATTERNS)"
    using cats(2) by (auto simp: sel)
  have img: "p_category ` set ?sel = set cats"
  proof
    show "p_category ` set ?sel \<subseteq> set cats"
      by (auto simp: sel)
    show "set cats \<subseteq> p_category ` set ?sel"
    proof
      fix c assume c: "c \<in> set cats"
      with cats(2) have "filter (\<lambda>p. p_category p = c) TOOL_PATTERNS \<noteq> []"
        by (intro table_category_has_pattern) auto
      then obtain p where "p \<in> set (filter (\<lambda>p. p_category p = c) TOOL_PATTERNS)"
        by (cases "filter (\<lambda>p. p_category p = c) TOOL_PATTERNS") auto
      with c have "p \<in> set ?sel" and "p_category p = c"
        by (auto simp: sel)
      then show "c \<in> p_category ` set ?sel"
        by auto
    qed
  qed
  from cats(1) img have nonempty: "?sel \<noteq> []"
    by auto
  have "inj_on p_id (set ?sel)"
    using sub by (intro inj_on_subset[OF inj_on_pattern_ids]) auto
  then have same: "set (uniqueBy p_id ?sel) = set ?sel"
    by (rule set_uniqueBy_inj)
  have "distinct (uniqueBy p_id ?sel)"
    using distinct_uniqueBy[of p_id ?sel] by (simp add: distinct_map)
  then have "length (uniqueBy p_id ?sel) = card (set (uniqueBy p_id ?sel))"
    by (simp add: distinct_card)
  also have "\<dots> \<le> card (set (filter (\<lambda>p. p_category p \<in> ?T) TOOL_PATTERNS))"
    using sub by (intro card_mono) (auto simp: same)
  also have "\<dots> \<le> 4"
    using card_length[of "filter (\<lambda>p. p_category p \<in> ?T) TOOL_PATTERNS"]
    by (simp only: table_category_patterns)
  finally have short: "length (uniqueBy p_id ?sel) \<le> 5"
    by simp
  have "uniquePatterns a = uniqueBy p_id ?sel"
    using nonempty by (simp add: uniquePatterns_def Let_def uniqueBy_eq_Nil)
  with short have "selectToolPatterns a = uniqueBy p_id ?sel"
    by (simp add: selectToolPatterns_def)
  with same img show ?thesis
    by simp
qed

lemma fallback_returned:
  assumes "analyzeRequiredTools env description = Some (createFallbackAnalysis description)"
    and "orEmpty (services (createFallbackAnalysis description)) = []"
  shows "\<exists>cfg. generateServerConfig env description = Inr cfg \<and>
     aiAnalysis (sc_metadata cfg) = createFallbackAnalysis description \<and>
     sc_patterns cfg = selectToolPatterns (createFallbackAnalysis description)"
  using assms
  by (simp add: generateServerConfig_def buildServerConfig_def selectIntegrations_def Let_def)

text \<open>
  Claim C3. When the analysis capability fails (the request throws, the answer is empty
  or it does not parse), the fallback analysis takes its place. For a description that
  names neither \<open>github\<close> nor \<open>slack\<close> the resolver returns a configuration; its analysis
  is the fallback analysis, whose complexity is \<open>simple\<close> and whose tool categories are
  the ones the keyword table yields for the description, and the categories of the
  selected patterns are exactly those categories. For a description that names \<open>github\<close>
  or \<open>slack\<close> the fallback analysis holds a service, the selection of the integrations
  calls \<open>findIntegrations\<close>, which does not exist, and the resolver raises.
\<close>

theorem fallback_on_failure:
  assumes "analyze env description \<in> {CallFailed, NoContent, Unparseable}"
  shows "(if jsIncludes (toLowerCase description) ''github'' \<or>
             jsIncludes (toLowerCase description) ''slack''
          then generateServerConfig env description =
                 Inl (''AI Generation failed: '' @ missingFunctionMessage)
          else (\<exists>cfg. generateServerConfig env description = Inr cfg \<and>
                 aiAnalysis (sc_metadata cfg) = createFallbackAnalysis description \<and>
                 complexity (aiAnalysis (sc_metadata cfg)) = Some ''simple'' \<and>
                 toolCategories (aiAnalysis (sc_metadata cfg)) =
                   Some (keywordCategories description) \<and>
                 p_category ` set (sc_patterns cfg) = set (keywordCategories description)))"
proof -
  from assms have fb: "analyzeRequiredTools env description =
      Some (createFallbackAnalysis description)"
    by (auto simp: analyzeRequiredTools_def)
  show ?thesis
  proof (cases "jsIncludes (toLowerCase description) ''github'' \<or>
                jsIncludes (toLowerCase description) ''slack''")
    case True
    then have "orEmpty (services (createFallbackAnalysis description)) \<noteq> []"
      by (auto simp: fallback_services orEmpty_def)
    with fb have "generateServerConfig env description =
        Inl (''AI Generation failed: '' @ missingFunctionMessage)"
      by (rule generateServerConfig_service)
    with True show ?thesis
      by (simp only: if_True)
  next
    case False
    then have "orEmpty (services (createFallbackAnalysis description)) = []"
      by (simp add: fallback_services orEmpty_def)
    with fb obtain cfg where r: "generateServerConfig env description = Inr cfg"
      and a: "aiAnalysis (sc_metadata cfg) = createFallbackAnalysis description"
      and p: "sc_patterns cfg = selectToolPatterns (createFallbackAnalysis description)"
      using fallback_returned by blast
    have "p_category ` set (selectToolPatterns (createFallbackAnalysis description)) =
            set (keywordCategories description)"
      using keywordCategories_range[of description]
      by (intro table_pattern_categories)
         (simp_all add: fallback_toolCategories fallback_primaryActions)
    with r a p have "\<exists>cfg. generateServerConfig env description = Inr cfg \<and>
                 aiAnalysis (sc_metadata cfg) = createFallbackAnalysis description \<and>
                 complexity (aiAnalysis (sc_metadata cfg)) = Some ''simple'' \<and>
                 toolCategories (aiAnalysis (sc_metadata cfg)) =
                   Some (keywordCategories description) \<and>
                 p_category ` set (sc_patterns cfg) = set (keywordCategories description)"
      by (simp add: fallback_complexity fallback_toolCategories)
    with False show ?thesis
      by (simp only: if_False)
  qed
qed

text \<open>
  The description \<open>list my github issues\<close> with an analysis capability that throws: the
  fallback analysis holds the service \<open>GitHub\<close> and the resolver raises. The description
  \<open>Upload a file\<close> names no service, and a configuration is returned.
\<close>

theorem fallback_on_failure_witness:
  "analyze offline ''list my github issues'' = CallFailed \<and>
   services (createFallbackAnalysis ''list my github issues'') = Some [''GitHub''] \<and>
   generateServerConfig offline ''list my github issues'' =
     Inl (''AI Generation failed: '' @ missingFunctionMessage) \<and>
   map_sum id (\<lambda>cfg. (complexity (aiAnalysis (sc_metadata cfg)),
                      toolCategories (aiAnalysis (sc_metadata cfg)),
                      map p_category (sc_patterns cfg)))
     (generateServerConfig offline ''Upload a file'') =
   Inr (Some ''simple'', Some [''file''], [''file''])"
proof -
  have failed: "analyze offline ''list my github issues'' \<in> {CallFailed, NoContent, Unparseable}"
    by (simp add: offline_def)
  have named: "jsIncludes (toLowerCase ''list my github issues'') ''github'' \<or>
               jsIncludes (toLowerCase ''list my github issues'') ''slack''"
    by code_simp
  from fallback_on_failure[OF failed] named
  have raised: "generateServerConfig offline ''list my github issues'' =
      Inl (''AI Generation failed: '' @ missingFunctionMessage)"
    by (simp only: if_True)
  have call: "analyze offline ''list my github issues'' = CallFailed"
    by (simp add: offline_def)
  have svc: "services (createFallbackAnalysis ''list my github issues'') = Some [''GitHub'']"
    by code_simp
  have run: "map_sum id (\<lambda>cfg. (complexity (aiAnalysis (sc_metadata cfg)),
                      toolCategories (aiAnalysis (sc_metadata cfg)),
                      map p_category (sc_patterns cfg)))
     (generateServerConfig offline ''Upload a file'') =
   Inr (Some ''simple'', Some [''file''], [''file''])"
    by code_simp
  show ?thesis
    by (intro conjI call svc raised run)
qed

subsection \<open>Cardinality caps\<close>

lemma length_generateCustomTools:
  "length (generateCustomTools env analysis patterns) \<le> length patterns"
  by (induction patterns) (auto simp: generateCustomTools_def split: option.splits)

lemma patternIds_generateCustomTools_subset:
  "set (map t_patternId (generateCustomTools env analysis patterns)) \<subseteq> set (map p_id patterns)"
  by (induction patterns)
     (auto simp: generateCustomTools_def generateCustomTool_def
           split: option.splits completion.splits)

text \<open>
  Claim C4. Every configuration that the resolver returns holds at most five selected
  patterns, no more tools than selected patterns (hence at most five), each of them made
  for one of the selected patterns, and at most three integrations.
\<close>

theorem selection_caps:
  "generateServerConfig env description = Inr cfg \<Longrightarrow>
   length (sc_patterns cfg) \<le> 5 \<and>
   length (sc_customTools cfg) \<le> length (sc_patterns cfg) \<and>
   length (sc_customTools cfg) \<le> 5 \<and>
   length (sc_integrations cfg) \<le> 3 \<and>
   set (map t_patternId (sc_customTools cfg)) \<subseteq> set (map p_id (sc_patterns cfg))"
proof -
  assume "generateServerConfig env description = Inr cfg"
  then obtain a where p: "sc_patterns cfg = selectToolPatterns a"
    and i: "sc_integrations cfg = take 3 (uniqueBy i_id (suggestedSelection a))"
    and t: "sc_customTools cfg = generateCustomTools env a (sc_patterns cfg)"
    by (rule generateServerConfig_returned)
  from p have p5: "length (sc_patterns cfg) \<le> 5"
    by (simp add: selectToolPatterns_def)
  from t have tp: "length (sc_customTools cfg) \<le> length (sc_patterns cfg)"
    by (simp add: length_generateCustomTools)
  from tp p5 have t5: "length (sc_customTools cfg) \<le> 5"
    by (rule order_trans)
  from i have i3: "length (sc_integrations cfg) \<le> 3"
    by simp
  from t have
    sub: "set (map t_patternId (sc_customTools cfg)) \<subseteq> set (map p_id (sc_patterns cfg))"
    by (simp only: patternIds_generateCustomTools_subset)
  show ?thesis
    by (intro conjI p5 tp t5 i3 sub)
qed

text \<open>
  The catalog has six patterns, so seven candidates cannot occur; the run below has six
  candidate patterns and five candidate integrations.
\<close>

theorem selection_caps_witness:
  "map p_id (uniquePatterns broadAnalysis) =
     [''api-request'', ''file-operations'', ''database-query'', ''notification-sender'',
      ''data-processing'', ''auth-handler''] \<and>
   map i_id (uniqueBy i_id (suggestedSelection broadAnalysis)) =
     [''github'', ''slack'', ''postgresql'', ''sendgrid'', ''twilio''] \<and>
   (\<exists>cfg. generateServerConfig online ''do everything'' = Inr cfg \<and>
      map p_id (sc_patterns cfg) =
        [''api-request'', ''file-operations'', ''database-query'', ''notification-sender'',
         ''data-processing''] \<and>
      map t_patternId (sc_customTools cfg) =
        [''api-request'', ''file-operations'', ''database-query'', ''notification-sender'',
         ''data-processing''] \<and>
      map i_id (sc_integrations cfg) = [''github'', ''slack'', ''postgresql''] \<and>
      length (sc_patterns cfg) \<le> 5 \<and> length (sc_customTools cfg) \<le> 5 \<and>
      length (sc_integrations cfg) \<le> 3)"
proof -
  have c: "map p_id (uniquePatterns broadAnalysis) =
     [''api-request'', ''file-operations'', ''database-query'', ''notification-sender'',
      ''data-processing'', ''auth-handler'']"
    by code_simp
  have d: "map i_id (uniqueBy i_id (suggestedSelection broadAnalysis)) =
     [''github'', ''slack'', ''postgresql'', ''sendgrid'', ''twilio'']"
    by code_simp
  have "map_sum id (\<lambda>cfg. (map p_id (sc_patterns cfg),
       map t_patternId (sc_customTools cfg), map i_id (sc_integrations cfg)))
     (generateServerConfig online ''do everything'') =
   Inr ([''api-request'', ''file-operations'', ''database-query'', ''notification-sender'',
         ''data-processing''],
        [''api-request'', ''file-operations'', ''database-query'', ''notification-sender'',
         ''data-processing''],
        [''github'', ''slack'', ''postgresql''])"
    by code_simp
  then obtain cfg where r: "generateServerConfig online ''do everything'' = Inr cfg"
    and e: "(map p_id (sc_patterns cfg), map t_patternId (sc_customTools cfg),
             map i_id (sc_integrations cfg)) =
      ([''api-request'', ''file-operations'', ''database-query'', ''notification-sender'',
         ''data-processing''],
        [''api-request'', ''file-operations'', ''database-query'', ''notification-sender'',
         ''data-processing''],
        [''github'', ''slack'', ''postgresql''])"
    by (rule map_sum_Inr)
  from e have e1: "map p_id (sc_patterns cfg) =
        [''api-request'', ''file-operations'', ''database-query'', ''notification-sender'',
         ''data-processing'']"
    and e2: "map t_patternId (sc_customTools cfg) =
        [''api-request'', ''file-operations'', ''database-query'', ''notification-sender'',
         ''data-processing'']"
    and e3: "map i_id (sc_integrations cfg) = [''github'', ''slack'', ''postgresql'']"
    by simp_all
  from selection_caps[OF r] have l1: "length (sc_patterns cfg) \<le> 5"
    and l2: "length (sc_customTools cfg) \<le> 5" and l3: "length (sc_integrations cfg) \<le> 3"
    by simp_all
  have "\<exists>cfg. generateServerConfig online ''do everything'' = Inr cfg \<and>
      map p_id (sc_patterns cfg) =
        [''api-request'', ''file-operations'', ''database-query'', ''notification-sender'',
         ''data-processing''] \<and>
      map t_patternId (sc_customTools cfg) =
        [''api-request'', ''file-operations'', ''database-query'', ''notification-sender'',
         ''data-processing''] \<and>
      map i_id (sc_integrations cfg) = [''github'', ''slack'', ''postgresql''] \<and>
      length (sc_patterns cfg) \<le> 5 \<and> length (sc_customTools cfg) \<le> 5 \<and>
      length (sc_integrations cfg) \<le> 3"
    by (rule exI[of _ cfg]) (intro conjI r e1 e2 e3 l1 l2 l3)
  with c d show ?thesis
    by (intro conjI)
qed

subsection \<open>Environment variables\<close>

















subsection \<open>Uniqueness in the resolved configuration\<close>

lemma distinct_selectToolPatterns: "distinct (map p_id (selectToolPatterns analysis))"
proof -
  have "distinct (map p_id (uniquePatterns analysis))"
    by (simp add: uniquePatterns_def Let_def distinct_uniqueBy)
  then show ?thesis
    by (simp add: selectToolPatterns_def take_map[symmetric] del: take_map)
qed

lemma patternIds_generateCustomTools:
  "map t_patternId (generateCustomTools env analysis patterns) =
     map p_id (filter (\<lambda>p. generateCustomTool env analysis p \<noteq> None) patterns)"
  by (induction patterns)
     (auto simp: generateCustomTools_def generateCustomTool_def split: completion.splits)

lemma distinct_generateCustomTools:
  "distinct (map p_id patterns) \<Longrightarrow>
   distinct (map t_patternId (generateCustomTools env analysis patterns))"
  by (simp add: patternIds_generateCustomTools distinct_map_filter)

lemma catalog_lower_ids: "distinct (map (\<lambda>i. toLowerCase (i_id i)) INTEGRATIONS)"
  by code_simp

lemma distinct_returned_integrations:
  assumes "generateServerConfig env description = Inr cfg"
  shows "distinct (map i_id (sc_integrations cfg))"
proof -
  from assms obtain a
    where i: "sc_integrations cfg = take 3 (uniqueBy i_id (suggestedSelection a))"
    by (rule generateServerConfig_returned)
  have "distinct (map i_id (uniqueBy i_id (suggestedSelection a)))"
    by (simp add: distinct_uniqueBy)
  then show ?thesis
    by (simp add: i take_map[symmetric] del: take_map)
qed

lemma distinct_lower_ids:
  assumes "generateServerConfig env description = Inr cfg"
  shows "distinct (map (\<lambda>i. toLowerCase (i_id i)) (sc_integrations cfg))"
proof -
  have "inj_on (\<lambda>i. toLowerCase (i_id i)) (set INTEGRATIONS)"
    using catalog_lower_ids by (simp add: distinct_map)
  then have "inj_on (\<lambda>i. toLowerCase (i_id i)) (set (sc_integrations cfg))"
    using returned_integrations_catalog[OF assms] by (rule inj_on_subset)
  moreover have "distinct (sc_integrations cfg)"
    using distinct_returned_integrations[OF assms] by (simp add: distinct_map)
  ultimately show ?thesis
    by (simp add: distinct_map)
qed

text \<open>
  Claim C1, as the code has it. The resolver never compares tool names: a tool's name is
  the name in the synthesis answer, and two answers may agree. What is unique in every
  configuration that the resolver returns is the id of each selected integration, also
  when the ids are compared without regard to case, the id of each selected pattern, and
  the pattern of each tool.
\<close>

theorem resolved_ids_unique:
  "generateServerConfig env description = Inr cfg \<Longrightarrow>
   distinct (map (\<lambda>i. toLowerCase (i_id i)) (sc_integrations cfg)) \<and>
   distinct (map i_id (sc_integrations cfg)) \<and>
   distinct (map p_id (sc_patterns cfg)) \<and>
   distinct (map t_patternId (sc_customTools cfg))"
proof -
  assume r: "generateServerConfig env description = Inr cfg"
  then obtain a where p: "sc_patterns cfg = selectToolPatterns a"
    and t: "sc_customTools cfg = generateCustomTools env a (sc_patterns cfg)"
    by (rule generateServerConfig_returned)
  from p have dp: "distinct (map p_id (sc_patterns cfg))"
    by (simp only: distinct_selectToolPatterns)
  from dp have "distinct (map t_patternId (generateCustomTools env a (sc_patterns cfg)))"
    by (rule distinct_generateCustomTools)
  with t have dt: "distinct (map t_patternId (sc_customTools cfg))"
    by simp
  show ?thesis
    by (intro conjI distinct_lower_ids[OF r] distinct_returned_integrations[OF r] dp dt)
qed

theorem resolved_ids_unique_witness:
  "\<exists>cfg. generateServerConfig sameName ''email me the sql report'' = Inr cfg \<and>
     map i_id (sc_integrations cfg) = [''postgresql'', ''sendgrid''] \<and>
     map p_id (sc_patterns cfg) = [''database-query'', ''notification-sender''] \<and>
     map t_patternId (sc_customTools cfg) = [''database-query'', ''notification-sender''] \<and>
     distinct (map (\<lambda>i. toLowerCase (i_id i)) (sc_integrations cfg)) \<and>
     distinct (map p_id (sc_patterns cfg)) \<and>
     distinct (map t_patternId (sc_customTools cfg))"
proof -
  have "map_sum id (\<lambda>cfg. (map i_id (sc_integrations cfg), map p_id (sc_patterns cfg),
                      map t_patternId (sc_customTools cfg)))
     (generateServerConfig sameName ''email me the sql report'') =
   Inr ([''postgresql'', ''sendgrid''], [''database-query'', ''notification-sender''],
        [''database-query'', ''notification-sender''])"
    by code_simp
  then obtain cfg where r: "generateServerConfig sameName ''email me the sql report'' = Inr cfg"
    and e: "(map i_id (sc_integrations cfg), map p_id (sc_patterns cfg),
             map t_patternId (sc_customTools cfg)) =
      ([''postgresql'', ''sendgrid''], [''database-query'', ''notification-sender''],
        [''database-query'', ''notification-sender''])"
    by (rule map_sum_Inr)
  from e have e1: "map i_id (sc_integrations cfg) = [''postgresql'', ''sendgrid'']"
    and e2: "map p_id (sc_patterns cfg) = [''database-query'', ''notification-sender'']"
    and e3: "map t_patternId (sc_customTools cfg) = [''database-query'', ''notification-sender'']"
    by simp_all
  from resolved_ids_unique[OF r]
  have d1: "distinct (map (\<lambda>i. toLowerCase (i_id i)) (sc_integrations cfg))"
    and d2: "distinct (map p_id (sc_patterns cfg))"
    and d3: "distinct (map t_patternId (sc_customTools cfg))"
    by simp_all
  show ?thesis
    by (rule exI[of _ cfg]) (intro conjI r e1 e2 e3 d1 d2 d3)
qed

text \<open>
  With a Synthesize capability that gives every tool the name \<open>Tool\<close>, the configuration
  returned for the description below holds two tools of that name.
\<close>

theorem tool_names_counterexample:
  "map_sum id (\<lambda>cfg. map (\<lambda>t. toLowerCase (t_name t)) (sc_customTools cfg))
     (generateServerConfig sameName ''email me the sql report'') =
   Inr [''tool'', ''tool'']"
  by code_simp

subsection \<open>Scenario A\<close>

lemma scenarioA_fallback:
  "createFallbackAnalysis scenarioA =
     \<lparr> summary = Some ''send Slack notifications when a GitHub issue is created'',
       primaryActions = Some [], dataTypes = Some [],
       services = Some [''GitHub'', ''Slack''], complexity = Some ''simple'',
       toolCategories = Some [''api'', ''notification''],
       suggestedIntegrations = Some [''github'', ''slack''],
       keyFeatures = Some [], estimatedTools = Some 1 \<rparr>"
  by code_simp

lemma scenarioA_patterns:
  "map p_id (selectToolPatterns (createFallbackAnalysis scenarioA)) =
     [''api-request'', ''notification-sender'']"
  "map p_category (selectToolPatterns (createFallbackAnalysis scenarioA)) =
     [''api'', ''notification'']"
  by code_simp+

lemma scenarioA_suggested:
  "map i_id (suggestedSelection (createFallbackAnalysis scenarioA)) = [''github'', ''slack'']"
  by code_simp

text \<open>
  Claim C7. For the description of scenario A with the analysis capability failing, the
  fallback analysis suggests the integrations \<open>github\<close> and \<open>slack\<close> and the categories
  \<open>api\<close> and \<open>notification\<close>, as the claim says; the first loop of \<open>selectIntegrations\<close>
  selects the two integrations and \<open>selectToolPatterns\<close> the patterns of the two
  categories. The fallback analysis also holds the services \<open>GitHub\<close> and \<open>Slack\<close>: the
  second loop of \<open>selectIntegrations\<close> calls \<open>findIntegrations\<close>, which does not exist, and
  the resolver raises instead of returning a configuration, whatever the Synthesize
  capability would answer.
\<close>

theorem scenario_A:
  "analyze env scenarioA \<in> {CallFailed, NoContent, Unparseable} \<Longrightarrow>
   analyzeRequiredTools env scenarioA = Some (createFallbackAnalysis scenarioA) \<and>
   suggestedIntegrations (createFallbackAnalysis scenarioA) = Some [''github'', ''slack''] \<and>
   toolCategories (createFallbackAnalysis scenarioA) = Some [''api'', ''notification''] \<and>
   services (createFallbackAnalysis scenarioA) = Some [''GitHub'', ''Slack''] \<and>
   map i_id (suggestedSelection (createFallbackAnalysis scenarioA)) = [''github'', ''slack''] \<and>
   map p_category (selectToolPatterns (createFallbackAnalysis scenarioA)) =
     [''api'', ''notification''] \<and>
   generateServerConfig env scenarioA =
     Inl (''AI Generation failed: '' @ missingFunctionMessage) \<and>
   synthesisRequests env scenarioA = []"
proof -
  assume "analyze env scenarioA \<in> {CallFailed, NoContent, Unparseable}"
  then have fb: "analyzeRequiredTools env scenarioA = Some (createFallbackAnalysis scenarioA)"
    by (auto simp: analyzeRequiredTools_def)
  have an: "suggestedIntegrations (createFallbackAnalysis scenarioA) = Some [''github'', ''slack'']"
    "toolCategories (createFallbackAnalysis scenarioA) = Some [''api'', ''notification'']"
    "services (createFallbackAnalysis scenarioA) = Some [''GitHub'', ''Slack'']"
    by (simp_all add: scenarioA_fallback)
  from an(3) have svc: "orEmpty (services (createFallbackAnalysis scenarioA)) \<noteq> []"
    by (simp add: orEmpty_def)
  from fb svc have raised: "generateServerConfig env scenarioA =
      Inl (''AI Generation failed: '' @ missingFunctionMessage)"
    by (rule generateServerConfig_service)
  from svc have "selectIntegrations (createFallbackAnalysis scenarioA) =
      Inl missingFunctionMessage"
    by (rule selectIntegrations_service)
  with fb have none: "synthesisRequests env scenarioA = []"
    by (simp add: synthesisRequests_def Let_def)
  show ?thesis
    by (intro conjI fb an scenarioA_suggested scenarioA_patterns(2) raised none)
qed

theorem scenario_A_witness:
  "analyze sameName scenarioA = CallFailed \<and>
   services (createFallbackAnalysis scenarioA) = Some [''GitHub'', ''Slack''] \<and>
   generateServerConfig sameName scenarioA =
     Inl (''AI Generation failed: '' @ missingFunctionMessage)"
proof -
  have unavailable: "analyze sameName scenarioA = CallFailed"
    by (simp add: sameName_def offline_def)
  then have failed: "analyze sameName scenarioA \<in> {CallFailed, NoContent, Unparseable}"
    by simp
  note a = scenario_A[OF failed]
  from a have svc: "services (createFallbackAnalysis scenarioA) = Some [''GitHub'', ''Slack'']"
    by simp
  from a have raised: "generateServerConfig sameName scenarioA =
      Inl (''AI Generation failed: '' @ missingFunctionMessage)"
    by simp
  show ?thesis
    by (intro conjI unavailable svc raised)
qed

subsection \<open>The matcher\<close>

lemma findMatchingPatterns_filter:
  "findMatchingPatterns keywords actions =
     filter (\<lambda>pattern. \<exists>keyword\<in>set (keywords @ actions).
        (\<exists>action\<in>set (p_actions pattern). bidirectional action keyword) \<or>
        (\<exists>example\<in>set (orEmpty (p_examples pattern)). bidirectional example keyword) \<or>
        toLowerCase (p_category pattern) = toLowerCase keyword) TOOL_PATTERNS"
  unfolding findMatchingPatterns_def Let_def
  by (rule filter_cong)
     (auto simp: list_ex_iff bidirectional_def orEmpty_def toLowerCase_def
           split: option.splits)

lemma findMatchingIntegrations_filter:
  "findMatchingIntegrations keywords =
     filter (\<lambda>integration. \<exists>keyword\<in>set keywords.
        jsIncludes (toLowerCase (i_id integration)) (toLowerCase keyword) \<or>
        jsIncludes (toLowerCase (i_name integration)) (toLowerCase keyword) \<or>
        jsIncludes (toLowerCase (i_displayName integration)) (toLowerCase keyword) \<or>
        jsIncludes (toLowerCase (i_description integration)) (toLowerCase keyword))
       INTEGRATIONS"
  unfolding findMatchingIntegrations_def Let_def
  by (rule filter_cong) (auto simp: list_ex_iff)

text \<open>
  Claim C6, as the code has it. A pattern is selected exactly when some keyword, of the
  keywords and actions together and compared without regard to case, contains or is
  contained in one of the pattern's actions or example phrases, or equals the pattern's
  category name. An integration is selected exactly when some keyword is contained,
  without regard to case, in its id, name, display name or description. Both results
  keep the order of the catalog.
\<close>

theorem matcher_selection:
  "(pattern \<in> set (findMatchingPatterns keywords actions) \<longleftrightarrow>
      pattern \<in> set TOOL_PATTERNS \<and>
      (\<exists>keyword\<in>set (keywords @ actions).
         (\<exists>action\<in>set (p_actions pattern). bidirectional action keyword) \<or>
         (\<exists>example\<in>set (orEmpty (p_examples pattern)). bidirectional example keyword) \<or>
         toLowerCase (p_category pattern) = toLowerCase keyword)) \<and>
   (integration \<in> set (findMatchingIntegrations serviceNames) \<longleftrightarrow>
      integration \<in> set INTEGRATIONS \<and>
      (\<exists>keyword\<in>set serviceNames.
         jsIncludes (toLowerCase (i_id integration)) (toLowerCase keyword) \<or>
         jsIncludes (toLowerCase (i_name integration)) (toLowerCase keyword) \<or>
         jsIncludes (toLowerCase (i_displayName integration)) (toLowerCase keyword) \<or>
         jsIncludes (toLowerCase (i_description integration)) (toLowerCase keyword))) \<and>
   subseq (findMatchingPatterns keywords actions) TOOL_PATTERNS \<and>
   subseq (findMatchingIntegrations serviceNames) INTEGRATIONS"
proof (intro conjI)
  show "pattern \<in> set (findMatchingPatterns keywords actions) \<longleftrightarrow>
      pattern \<in> set TOOL_PATTERNS \<and>
      (\<exists>keyword\<in>set (keywords @ actions).
         (\<exists>action\<in>set (p_actions pattern). bidirectional action keyword) \<or>
         (\<exists>example\<in>set (orEmpty (p_examples pattern)). bidirectional example keyword) \<or>
         toLowerCase (p_category pattern) = toLowerCase keyword)"
    by (simp only: findMatchingPatterns_filter set_filter mem_Collect_eq)
  show "integration \<in> set (findMatchingIntegrations serviceNames) \<longleftrightarrow>
      integration \<in> set INTEGRATIONS \<and>
      (\<exists>keyword\<in>set serviceNames.
         jsIncludes (toLowerCase (i_id integration)) (toLowerCase keyword) \<or>
         jsIncludes (toLowerCase (i_name integration)) (toLowerCase keyword) \<or>
         jsIncludes (toLowerCase (i_displayName integration)) (toLowerCase keyword) \<or>
         jsIncludes (toLowerCase (i_description integration)) (toLowerCase keyword))"
    by (simp only: findMatchingIntegrations_filter set_filter mem_Collect_eq)
  show "subseq (findMatchingPatterns keywords actions) TOOL_PATTERNS"
    by (simp only: findMatchingPatterns_filter subseq_filter_left)
  show "subseq (findMatchingIntegrations serviceNames) INTEGRATIONS"
    by (simp only: findMatchingIntegrations_filter subseq_filter_left)
qed

theorem matcher_selection_witness:
  "map p_id (findMatchingPatterns [''send''] [''Email'']) = [''notification-sender''] \<and>
   map i_id (findMatchingIntegrations [''SMS'']) = [''twilio'']"
proof -
  have patterns: "map p_id (findMatchingPatterns [''send''] [''Email'']) =
      [''notification-sender'']"
    by code_simp
  have integrations: "map i_id (findMatchingIntegrations [''SMS'']) = [''twilio'']"
    by code_simp
  show ?thesis
    using matcher_selection[of "TOOL_PATTERNS ! 3" "[''send'']" "[''Email'']"
        "INTEGRATIONS ! 6" "[''SMS'']"]
    by (intro conjI patterns integrations)
qed

theorem matcher_bidirectional_counterexample:
  "map i_id (specFindIntegrations [''GitHub issues'']) = [''github''] \<and>
   findMatchingIntegrations [''GitHub issues''] = [] \<and>
   map p_id (specFindPatterns [''apis''] []) = [''api-request''] \<and>
   findMatchingPatterns [''apis''] [] = []"
proof (intro conjI)
  show "map i_id (specFindIntegrations [''GitHub issues'']) = [''github'']"
    by code_simp
  show "findMatchingIntegrations [''GitHub issues''] = []"
    by code_simp
  show "map p_id (specFindPatterns [''apis''] []) = [''api-request'']"
    by code_simp
  show "findMatchingPatterns [''apis''] [] = []"
    by code_simp
qed

subsection \<open>Adding to a configuration and validating it\<close>

lemma set_addDependency:
  "set (cc_dependencies (addDependency config dependency)) =
     insert dependency (set (cc_dependencies config))"
  by (simp add: addDependency_def set_foldl_setAdd set_setAdd)

lemma distinct_addDependency: "distinct (cc_dependencies (addDependency config dependency))"
  by (simp add: addDependency_def distinct_foldl_setAdd distinct_setAdd)

lemma duplicate_tools_reported:
  assumes "cc_integrations config \<noteq> []"
    and "\<not> distinct (map (\<lambda>t. toLowerCase (ct_name t)) (cc_customTools config))"
  shows "''Duplicate tool names detected'' \<in> set (validateConfig config)"
proof -
  from assms(1) obtain i rest where ints: "cc_integrations config = i # rest"
    by (cases "cc_integrations config") auto
  let ?names = "map (\<lambda>t. toLowerCase (ct_name t)) (cc_customTools config)"
  from assms(2) have "length ?names \<noteq> length (remdups ?names)"
    by (metis length_remdups_eq remdups_id_iff_distinct)
  then have "''Duplicate tool names detected'' \<in> set (integrationMessages config (0, i))"
    by (simp add: integrationMessages_def Let_def)
  then show ?thesis
    by (simp add: validateConfig_def ints)
qed

lemma toolMessages_other: "''Duplicate tool names detected'' \<notin> set (toolMessages it)"
  by (cases it) (simp add: toolMessages_def)

lemma integrationMessages_duplicate:
  assumes "''Duplicate tool names detected'' \<in> set (integrationMessages config ii)"
  shows "\<not> distinct (map (\<lambda>t. toLowerCase (ct_name t)) (cc_customTools config))"
proof -
  let ?names = "map (\<lambda>t. toLowerCase (ct_name t)) (cc_customTools config)"
  obtain index integration where ii: "ii = (index, integration)"
    by (cases ii)
  from assms have "length ?names \<noteq> length (remdups ?names)"
    by (simp add: ii integrationMessages_def Let_def split: if_splits)
  then show ?thesis
    by (metis distinct_remdups_id)
qed

lemma duplicate_tools_reported_only:
  assumes "''Duplicate tool names detected'' \<in> set (validateConfig config)"
  shows "cc_integrations config \<noteq> [] \<and>
         \<not> distinct (map (\<lambda>t. toLowerCase (ct_name t)) (cc_customTools config))"
proof -
  from assms obtain ii where "ii \<in> set (enumerate 0 (cc_integrations config))"
    and "''Duplicate tool names detected'' \<in> set (integrationMessages config ii)"
    by (auto simp: validateConfig_def toolMessages_other split: if_splits)
  then show ?thesis
    by (auto dest: integrationMessages_duplicate)
qed

text \<open>
  Claim C8. \<open>addTool\<close>, \<open>addIntegration\<close> and \<open>addDependency\<close> are pure: they return a new
  configuration and leave their argument alone. None of them validates or raises:
  \<open>addTool\<close> appends the tool, so two tools added one after the other are both kept,
  whatever their names, and \<open>createTool\<close> gives the names \<open>Get Weather\<close> and \<open>get-weather\<close>
  the same sanitized name. Validation is the later step \<open>validateConfig\<close>, and there the
  comparison of the tool names stands inside the loop over the integrations: duplicate
  tool names are reported exactly when the names collide and the configuration holds an
  integration. Two tools of one name in a configuration without integrations pass
  validation.
\<close>

theorem add_then_validate:
  "cc_customTools (addTool (addTool config tool) tool') = cc_customTools config @ [tool, tool'] \<and>
   cc_name (addTool config tool) = cc_name config \<and>
   cc_description (addTool config tool) = cc_description config \<and>
   cc_dependencies (addTool config tool) = cc_dependencies config \<and>
   cc_integrations (addTool config tool) = cc_integrations config \<and>
   addIntegration config integration =
     config\<lparr> cc_integrations := cc_integrations config @ [integration] \<rparr> \<and>
   set (cc_dependencies (addDependency config dependency)) =
     insert dependency (set (cc_dependencies config)) \<and>
   distinct (cc_dependencies (addDependency config dependency)) \<and>
   cc_customTools (addDependency config dependency) = cc_customTools config \<and>
   cc_integrations (addDependency config dependency) = cc_integrations config \<and>
   ct_name (createTool ''Get Weather'' description schema implementation) = ''get-weather'' \<and>
   ct_name (createTool ''get-weather'' description schema implementation) = ''get-weather'' \<and>
   ((''Duplicate tool names detected'' \<in> set (validateConfig config)) =
    (cc_integrations config \<noteq> [] \<and>
     \<not> distinct (map (\<lambda>t. toLowerCase (ct_name t)) (cc_customTools config))))"
proof (intro conjI)
  show "ct_name (createTool ''Get Weather'' description schema implementation) = ''get-weather''"
    by (simp add: createTool_def) code_simp
  show "ct_name (createTool ''get-weather'' description schema implementation) = ''get-weather''"
    by (simp add: createTool_def) code_simp
  show "(''Duplicate tool names detected'' \<in> set (validateConfig config)) =
    (cc_integrations config \<noteq> [] \<and>
     \<not> distinct (map (\<lambda>t. toLowerCase (ct_name t)) (cc_customTools config)))"
    using duplicate_tools_reported[of config] duplicate_tools_reported_only[of config]
    by blast
qed (simp_all add: addTool_def addIntegration_def set_addDependency distinct_addDependency,
     simp_all add: addDependency_def)

text \<open>
  The specification's scenario D: the tool \<open>Get Weather\<close> is added and then the tool
  \<open>get-weather\<close>, to a configuration without integrations. Both tools are kept under the
  name \<open>get-weather\<close>, validation reports nothing, and the validated rendering into an
  empty directory goes through. With one integration added, the same two tools are
  reported.
\<close>

theorem add_then_validate_witness:
  "map ct_name (cc_customTools (addTool (addTool weatherConfig getWeather) getWeatherKebab)) =
     [''get-weather'', ''get-weather''] \<and>
   ''Duplicate tool names detected'' \<notin>
     set (validateConfig (addTool (addTool weatherConfig getWeather) getWeatherKebab)) \<and>
   validateConfig (addTool (addTool weatherConfig getWeather) getWeatherKebab) = [] \<and>
   fst (generateValidatedServer plainEngine
          (addTool (addTool weatherConfig getWeather) getWeatherKebab) firstDir siblings) = None \<and>
   validateConfig (addIntegration (addTool (addTool weatherConfig getWeather) getWeatherKebab)
     weatherIntegration) = [''Duplicate tool names detected'']"
proof -
  let ?c = "addTool (addTool weatherConfig getWeather) getWeatherKebab"
  have none: "cc_integrations ?c = []"
    by (simp add: addTool_def weatherConfig_def createBasicConfig_def)
  have names: "map ct_name (cc_customTools ?c) = [''get-weather'', ''get-weather'']"
    by code_simp
  from add_then_validate[of ?c] none
  have silent: "''Duplicate tool names detected'' \<notin> set (validateConfig ?c)"
    by simp
  have valid: "validateConfig ?c = []"
    by code_simp
  have rendered: "fst (generateValidatedServer plainEngine ?c firstDir siblings) = None"
    by code_simp
  have report: "validateConfig (addIntegration ?c weatherIntegration) =
      [''Duplicate tool names detected'']"
    by code_simp
  show ?thesis
    by (intro conjI names silent valid rendered report)
qed

subsection \<open>Rendering is independent of the output directory\<close>

lemma split_plain: "d \<notin> set s \<Longrightarrow> split d s = [s]"
  by (induction s) auto

lemma joinSegment_plain:
  assumes "segment \<noteq> []" "segment \<noteq> ''.''" "segment \<noteq> ''..''"
  shows "joinSegment p segment = p @ [segment]"
  using assms by (simp add: joinSegment_def)

lemma pathJoin_Nil: "pathJoin base [] = base"
  by (simp add: pathJoin_def)

lemma pathJoin_plain:
  assumes "CHR ''/'' \<notin> set segment" "segment \<noteq> []" "segment \<noteq> ''.''" "segment \<noteq> ''..''"
  shows "pathJoin base (segment # arguments) = pathJoin (base @ [segment]) arguments"
  using assms by (simp add: pathJoin_def split_plain joinSegment_plain)

lemma toLowerCaseChar_slash: "toLowerCaseChar c = CHR ''/'' \<longleftrightarrow> c = CHR ''/''"
proof
  assume l: "toLowerCaseChar c = CHR ''/''"
  show "c = CHR ''/''"
  proof (cases "65 \<le> (of_char c :: nat) \<and> (of_char c :: nat) \<le> 90")
    case True
    then have "toLowerCaseChar c = char_of ((of_char c :: nat) + 32)"
      by (simp add: toLowerCaseChar_def Let_def)
    with l have "(of_char (char_of ((of_char c :: nat) + 32)) :: nat) = of_char (CHR ''/'')"
      by simp
    with True show ?thesis
      by simp
  next
    case False
    with l show ?thesis
      by (simp add: toLowerCaseChar_def Let_def)
  qed
next
  assume "c = CHR ''/''"
  then show "toLowerCaseChar c = CHR ''/''"
    by (simp add: toLowerCaseChar_def)
qed

lemma set_separateHumps: "set (separateHumps r s) \<subseteq> insert r (set s)"
  by (induction r s rule: separateHumps.induct) auto

lemma set_replaceRuns: "set (replaceRuns P r s) \<subseteq> insert r (set s)"
proof (induction P r s rule: replaceRuns.induct)
  case (1 P r)
  show ?case by simp
next
  case (2 P r c s)
  have "set (dropWhile P s) \<subseteq> set s"
    by (auto dest: set_dropWhileD)
  with 2 show ?case
    by auto
qed

lemma toLowerCase_slash: "CHR ''/'' \<in> set (toLowerCase s) \<longleftrightarrow> CHR ''/'' \<in> set s"
proof
  assume "CHR ''/'' \<in> set (toLowerCase s)"
  then obtain x where x: "x \<in> set s" and "toLowerCaseChar x = CHR ''/''"
    unfolding toLowerCase_def by force
  then have "x = CHR ''/''"
    by (simp only: toLowerCaseChar_slash)
  with x show "CHR ''/'' \<in> set s"
    by simp
next
  assume "CHR ''/'' \<in> set s"
  then have "toLowerCaseChar (CHR ''/'') \<in> set (toLowerCase s)"
    unfolding toLowerCase_def by force
  then show "CHR ''/'' \<in> set (toLowerCase s)"
    by (simp add: toLowerCaseChar_def)
qed

lemma kebabCase_slash:
  assumes "CHR ''/'' \<notin> set name"
  shows "CHR ''/'' \<notin> set (kebabCase name)"
proof -
  let ?h = "separateHumps CHR ''-'' name"
  let ?r = "replaceRuns (\<lambda>c. isSpace c \<or> c = CHR ''_'') CHR ''-'' ?h"
  from assms set_separateHumps[of "CHR ''-''" name] have "CHR ''/'' \<notin> set ?h"
    by auto
  with set_replaceRuns[of "\<lambda>c. isSpace c \<or> c = CHR ''_''" "CHR ''-''" ?h]
  have "CHR ''/'' \<notin> set ?r"
    by auto
  then show ?thesis
    by (simp add: kebabCase_def toLowerCase_slash)
qed

lemma pathJoin_literal:
  "pathJoin d [''src''] = d @ [''src'']"
  "pathJoin d [''src'', ''tools''] = d @ [''src'', ''tools'']"
  "pathJoin d [''src'', ''integrations''] = d @ [''src'', ''integrations'']"
  "pathJoin d [''src'', ''index.ts''] = d @ [''src'', ''index.ts'']"
  "pathJoin d [''package.json''] = d @ [''package.json'']"
  "pathJoin d [''tsconfig.json''] = d @ [''tsconfig.json'']"
  "pathJoin d [''src'', ''tools'', ''index.ts''] = d @ [''src'', ''tools'', ''index.ts'']"
  "pathJoin d [''.env.example''] = d @ [''.env.example'']"
  "pathJoin d [''README.md''] = d @ [''README.md'']"
  "pathJoin d [''src'', ''types.ts''] = d @ [''src'', ''types.ts'']"
  by (simp_all add: pathJoin_plain pathJoin_Nil)

lemma pathJoin_fileName:
  assumes "CHR ''/'' \<notin> set name"
  shows "pathJoin d [''src'', ''tools'', kebabCase name @ ''.ts''] =
           d @ [''src'', ''tools'', kebabCase name @ ''.ts'']"
    and "pathJoin d [''src'', ''integrations'', kebabCase name @ ''.ts''] =
           d @ [''src'', ''integrations'', kebabCase name @ ''.ts'']"
proof -
  let ?f = "kebabCase name @ ''.ts''"
  from assms have "CHR ''/'' \<notin> set ?f"
    by (simp add: kebabCase_slash)
  moreover have "?f \<noteq> []" "?f \<noteq> ''.''" "?f \<noteq> ''..''"
    by (simp_all add: append_eq_Cons_conv)
  ultimately have f: "pathJoin base [?f] = base @ [?f]" for base
    by (simp add: pathJoin_plain pathJoin_Nil)
  show "pathJoin d [''src'', ''tools'', ?f] = d @ [''src'', ''tools'', ?f]"
    by (simp add: pathJoin_plain f)
  show "pathJoin d [''src'', ''integrations'', ?f] = d @ [''src'', ''integrations'', ?f]"
    by (simp add: pathJoin_plain f)
qed

lemma outputTree_eq:
  "outputTree d1 fs1 = outputTree d2 fs2 \<longleftrightarrow>
     (\<forall>rel. isDir fs1 (d1 @ rel) = isDir fs2 (d2 @ rel)) \<and>
     (\<forall>rel. fs_files fs1 (d1 @ rel) = fs_files fs2 (d2 @ rel))"
  by (auto simp: outputTree_def set_eq_iff fun_eq_iff)

lemma hasNullByte_append: "hasNullByte (d @ rel) = (hasNullByte d \<or> hasNullByte rel)"
  by (auto simp: hasNullByte_def)

lemma blocked_append:
  assumes "\<not> list_ex (isFile fs) (prefixes d)"
  shows "list_ex (isFile fs) (prefixes (d @ rel)) =
         list_ex (\<lambda>r. isFile fs (d @ r)) (prefixes rel)"
proof -
  have "list_ex (isFile fs) (prefixes (d @ rel)) \<longleftrightarrow> (\<exists>q. prefix q (d @ rel) \<and> isFile fs q)"
    by (auto simp: list_ex_iff in_set_prefixes)
  also have "\<dots> \<longleftrightarrow> (\<exists>q. prefix q d \<and> isFile fs q) \<or> (\<exists>r. prefix r rel \<and> isFile fs (d @ r))"
    by (auto simp: prefix_append)
  also have "\<dots> \<longleftrightarrow> (\<exists>r. prefix r rel \<and> isFile fs (d @ r))"
    using assms by (auto simp: list_ex_iff in_set_prefixes)
  also have "\<dots> \<longleftrightarrow> list_ex (\<lambda>r. isFile fs (d @ r)) (prefixes rel)"
    by (auto simp: list_ex_iff in_set_prefixes)
  finally show ?thesis .
qed

lemma agreeD:
  assumes "agree d1 fs1 d2 fs2"
  shows "\<not> hasNullByte d1" and "\<not> hasNullByte d2"
    and "\<not> list_ex (isFile fs1) (prefixes d1)" and "\<not> list_ex (isFile fs2) (prefixes d2)"
    and "isDir fs1 (d1 @ rel) = isDir fs2 (d2 @ rel)"
    and "fs_files fs1 (d1 @ rel) = fs_files fs2 (d2 @ rel)"
    and "isFile fs1 (d1 @ rel) = isFile fs2 (d2 @ rel)"
  using assms by (simp_all add: agree_def unblocked_def outputTree_eq isFile_def)

lemma agree_same_checks:
  assumes "agree d1 fs1 d2 fs2"
  shows "hasNullByte (d1 @ rel) = hasNullByte (d2 @ rel)"
    and "list_ex (isFile fs1) (prefixes (d1 @ rel)) = list_ex (isFile fs2) (prefixes (d2 @ rel))"
proof -
  show "hasNullByte (d1 @ rel) = hasNullByte (d2 @ rel)"
    using agreeD(1,2)[OF assms] by (simp add: hasNullByte_append)
  have "list_ex (\<lambda>r. isFile fs1 (d1 @ r)) (prefixes rel) =
        list_ex (\<lambda>r. isFile fs2 (d2 @ r)) (prefixes rel)"
    by (simp only: agreeD(7)[OF assms])
  then show "list_ex (isFile fs1) (prefixes (d1 @ rel)) =
             list_ex (isFile fs2) (prefixes (d2 @ rel))"
    by (simp only: blocked_append[OF agreeD(3)[OF assms]] blocked_append[OF agreeD(4)[OF assms]])
qed

lemma agree_ensured:
  assumes "agree d1 fs1 d2 fs2"
  shows "agree d1 (fs1\<lparr> fs_dirs := fs_dirs fs1 \<union> set (prefixes (d1 @ rel)) \<rparr>)
               d2 (fs2\<lparr> fs_dirs := fs_dirs fs2 \<union> set (prefixes (d2 @ rel)) \<rparr>)"
proof -
  have dir: "isDir (fs\<lparr> fs_dirs := fs_dirs fs \<union> set (prefixes (d @ rel)) \<rparr>) (d @ r) =
             (isDir fs (d @ r) \<or> prefix r rel)" for fs d r
    by (auto simp: isDir_def in_set_prefixes)
  have same_files: "isFile (fs\<lparr> fs_dirs := ds \<rparr>) = isFile fs" for fs ds
    by (rule ext) (simp add: isFile_def)
  from assms show ?thesis
    by (simp add: agree_def unblocked_def outputTree_eq dir same_files)
qed

lemma agree_written:
  assumes "agree d1 fs1 d2 fs2" and "rel \<noteq> []"
  shows "agree d1 (fs1\<lparr> fs_files := (fs_files fs1)(d1 @ rel \<mapsto> content) \<rparr>)
               d2 (fs2\<lparr> fs_files := (fs_files fs2)(d2 @ rel \<mapsto> content) \<rparr>)"
proof -
  have keep: "\<not> list_ex (isFile (fs\<lparr> fs_files := (fs_files fs)(d @ rel \<mapsto> content) \<rparr>))
                  (prefixes d)"
    if "\<not> list_ex (isFile fs) (prefixes d)" for fs d
  proof -
    have "q \<noteq> d @ rel" if "prefix q d" for q
      using that assms(2) by (auto simp: prefix_def)
    with that show ?thesis
      by (auto simp: list_ex_iff in_set_prefixes isFile_def)
  qed
  have dir: "isDir (fs\<lparr> fs_files := m \<rparr>) p = isDir fs p" for fs m p
    by (simp add: isDir_def)
  from assms(1) show ?thesis
    by (simp add: agree_def unblocked_def outputTree_eq keep dir)
qed

lemma correspond_ensureDir: "correspond d1 d2 (ensureDir (d1 @ rel)) (ensureDir (d2 @ rel))"
  unfolding correspond_def
proof (intro allI impI)
  fix fs1 fs2
  assume a: "agree d1 fs1 d2 fs2"
  note same = agree_same_checks[OF a, of rel] agreeD(7)[OF a, of rel]
  show "fst (ensureDir (d1 @ rel) fs1) = fst (ensureDir (d2 @ rel) fs2) \<and>
        agree d1 (snd (ensureDir (d1 @ rel) fs1)) d2 (snd (ensureDir (d2 @ rel) fs2))"
    using a agree_ensured[OF a, of rel]
    by (simp add: ensureDir_def same)
qed

lemma correspond_writeFile:
  assumes "rel \<noteq> []"
  shows "correspond d1 d2 (writeFile (d1 @ rel) content) (writeFile (d2 @ rel) content)"
  unfolding correspond_def
proof (intro allI impI)
  fix fs1 fs2
  assume a: "agree d1 fs1 d2 fs2"
  from assms have parent: "butlast (d @ rel) = d @ butlast rel" for d :: path
    by (simp add: butlast_append)
  note same = agree_same_checks(1)[OF a, of rel] agree_same_checks(2)[OF a, of "butlast rel"]
    agreeD(5)[OF a, of rel] agreeD(5)[OF a, of "butlast rel"]
  show "fst (writeFile (d1 @ rel) content fs1) = fst (writeFile (d2 @ rel) content fs2) \<and>
        agree d1 (snd (writeFile (d1 @ rel) content fs1))
              d2 (snd (writeFile (d2 @ rel) content fs2))"
    using a agree_written[OF a assms, of content]
    by (simp add: writeFile_def parent same)
qed

lemma correspond_runSteps:
  assumes "list_all2 (correspond d1 d2) steps1 steps2"
  shows "correspond d1 d2 (runSteps steps1) (runSteps steps2)"
  using assms
proof (induction rule: list_all2_induct)
  case Nil
  show ?case
    by (simp add: correspond_def)
next
  case (Cons step1 steps1 step2 steps2)
  show ?case
    unfolding correspond_def
  proof (intro allI impI)
    fix fs1 fs2
    assume a: "agree d1 fs1 d2 fs2"
    with Cons.hyps(1) have h: "fst (step1 fs1) = fst (step2 fs2)"
      and a': "agree d1 (snd (step1 fs1)) d2 (snd (step2 fs2))"
      by (simp_all add: correspond_def)
    from Cons.IH a' have
      "fst (runSteps steps1 (snd (step1 fs1))) = fst (runSteps steps2 (snd (step2 fs2))) \<and>
       agree d1 (snd (runSteps steps1 (snd (step1 fs1))))
             d2 (snd (runSteps steps2 (snd (step2 fs2))))"
      by (simp add: correspond_def)
    with h a' show "fst (runSteps (step1 # steps1) fs1) = fst (runSteps (step2 # steps2) fs2) \<and>
        agree d1 (snd (runSteps (step1 # steps1) fs1)) d2 (snd (runSteps (step2 # steps2) fs2))"
      by (cases "step1 fs1"; cases "step2 fs2") (auto split: option.splits)
  qed
qed

lemma correspond_each:
  assumes "\<And>x. x \<in> set xs \<Longrightarrow> correspond d1 d2 (f x) (g x)"
  shows "correspond d1 d2 (runSteps (map f xs)) (runSteps (map g xs))"
  using assms
  by (intro correspond_runSteps) (simp add: list_all2_map1 list_all2_map2 list_all2_same)

lemma correspond_toolFile:
  assumes "CHR ''/'' \<notin> set (ct_name tool)"
  shows "correspond d1 d2 (generateToolFile hb tool config d1) (generateToolFile hb tool config d2)"
proof -
  have "generateToolFile hb tool config d =
          writeFile (d @ [''src'', ''tools'', kebabCase (ct_name tool) @ ''.ts''])
            (compileTool hb (registerHelpers hb) (toolFileTemplate hb) tool
               (cc_integrations config))" for d
    by (rule ext) (simp add: generateToolFile_def Let_def pathJoin_fileName[OF assms])
  then show ?thesis
    by (simp add: correspond_writeFile)
qed

lemma correspond_integrationFile:
  assumes "CHR ''/'' \<notin> set (ci_name integration)"
  shows "correspond d1 d2 (generateIntegrationFile hb integration d1)
           (generateIntegrationFile hb integration d2)"
proof -
  have "generateIntegrationFile hb integration d =
          writeFile (d @ [''src'', ''integrations'', kebabCase (ci_name integration) @ ''.ts''])
            (compileIntegration hb (registerHelpers hb) (integrationFileTemplate hb)
               integration)" for d
    by (rule ext) (simp add: generateIntegrationFile_def Let_def pathJoin_fileName[OF assms])
  then show ?thesis
    by (simp add: correspond_writeFile)
qed

lemma correspond_fixed_files:
  "correspond d1 d2 (generateServerIndex hb config d1) (generateServerIndex hb config d2)"
  "correspond d1 d2 (generatePackageJson hb config d1) (generatePackageJson hb config d2)"
  "correspond d1 d2 (generateTsConfig hb d1) (generateTsConfig hb d2)"
  "correspond d1 d2 (generateToolsIndex hb config d1) (generateToolsIndex hb config d2)"
  "correspond d1 d2 (generateEnvFile config d1) (generateEnvFile config d2)"
  "correspond d1 d2 (generateReadme hb config d1) (generateReadme hb config d2)"
  "correspond d1 d2 (generateTypesFile hb config d1) (generateTypesFile hb config d2)"
proof -
  have "generateServerIndex hb config d = writeFile (d @ [''src'', ''index.ts''])
          (compileConfig hb (registerHelpers hb) (serverIndexTemplate hb) config)" for d
    by (rule ext) (simp add: generateServerIndex_def pathJoin_literal)
  then show "correspond d1 d2 (generateServerIndex hb config d1)
      (generateServerIndex hb config d2)"
    by (simp add: correspond_writeFile)
  have "generatePackageJson hb config d =
          writeFile (d @ [''package.json'']) (stringify hb (packageJson config))" for d
    by (rule ext) (simp add: generatePackageJson_def pathJoin_literal)
  then show "correspond d1 d2 (generatePackageJson hb config d1)
      (generatePackageJson hb config d2)"
    by (simp add: correspond_writeFile)
  have "generateTsConfig hb d = writeFile (d @ [''tsconfig.json'']) (stringify hb tsConfig)"
    for d
    by (rule ext) (simp add: generateTsConfig_def pathJoin_literal)
  then show "correspond d1 d2 (generateTsConfig hb d1) (generateTsConfig hb d2)"
    by (simp add: correspond_writeFile)
  have "generateToolsIndex hb config d = writeFile (d @ [''src'', ''tools'', ''index.ts''])
          (compileConfig hb (registerHelpers hb) (toolsIndexTemplate hb) config)" for d
    by (rule ext) (simp add: generateToolsIndex_def pathJoin_literal)
  then show "correspond d1 d2 (generateToolsIndex hb config d1)
      (generateToolsIndex hb config d2)"
    by (simp add: correspond_writeFile)
  have "generateEnvFile config d = writeFile (d @ [''.env.example'']) (envContent config)" for d
    by (rule ext) (simp add: generateEnvFile_def pathJoin_literal)
  then show "correspond d1 d2 (generateEnvFile config d1) (generateEnvFile config d2)"
    by (simp add: correspond_writeFile)
  have "generateReadme hb config d = writeFile (d @ [''README.md''])
          (compileConfig hb (registerHelpers hb) (readmeTemplate hb) config)" for d
    by (rule ext) (simp add: generateReadme_def pathJoin_literal)
  then show "correspond d1 d2 (generateReadme hb config d1) (generateReadme hb config d2)"
    by (simp add: correspond_writeFile)
  have "generateTypesFile hb config d = writeFile (d @ [''src'', ''types.ts''])
          (compileConfig hb (registerHelpers hb) (typesFileTemplate hb) config)" for d
    by (rule ext) (simp add: generateTypesFile_def pathJoin_literal)
  then show "correspond d1 d2 (generateTypesFile hb config d1) (generateTypesFile hb config d2)"
    by (simp add: correspond_writeFile)
qed

lemma correspond_directories:
  "correspond d1 d2 (ensureDir d1) (ensureDir d2)"
  "correspond d1 d2 (ensureDir (pathJoin d1 [''src''])) (ensureDir (pathJoin d2 [''src'']))"
  "correspond d1 d2 (ensureDir (pathJoin d1 [''src'', ''tools'']))
     (ensureDir (pathJoin d2 [''src'', ''tools'']))"
  "correspond d1 d2 (ensureDir (pathJoin d1 [''src'', ''integrations'']))
     (ensureDir (pathJoin d2 [''src'', ''integrations'']))"
  using correspond_ensureDir[of d1 d2 "[]"]
  by (simp_all add: pathJoin_literal correspond_ensureDir)

lemma correspond_generateServer:
  assumes "\<forall>tool\<in>set (cc_customTools config). CHR ''/'' \<notin> set (ct_name tool)"
    and "\<forall>integration\<in>set (cc_integrations config). CHR ''/'' \<notin> set (ci_name integration)"
  shows "correspond d1 d2 (generateServer hb config d1) (generateServer hb config d2)"
proof -
  have tools: "correspond d1 d2 (generateToolFiles hb config d1) (generateToolFiles hb config d2)"
  proof -
    have "correspond d1 d2
        (runSteps (map (\<lambda>tool. generateToolFile hb tool config d1) (cc_customTools config)))
        (runSteps (map (\<lambda>tool. generateToolFile hb tool config d2) (cc_customTools config)))"
      using assms(1) by (intro correspond_each correspond_toolFile) simp
    moreover have "generateToolFiles hb config d =
        runSteps (map (\<lambda>tool. generateToolFile hb tool config d) (cc_customTools config))" for d
      by (rule ext) (simp add: generateToolFiles_def)
    ultimately show ?thesis
      by simp
  qed
  have integrations: "correspond d1 d2 (generateIntegrationFiles hb config d1)
      (generateIntegrationFiles hb config d2)"
  proof -
    have "correspond d1 d2
        (runSteps (map (\<lambda>integration. generateIntegrationFile hb integration d1)
           (cc_integrations config)))
        (runSteps (map (\<lambda>integration. generateIntegrationFile hb integration d2)
           (cc_integrations config)))"
      using assms(2) by (intro correspond_each correspond_integrationFile) simp
    moreover have "generateIntegrationFiles hb config d =
        runSteps (map (\<lambda>integration. generateIntegrationFile hb integration d)
          (cc_integrations config))" for d
      by (rule ext) (simp add: generateIntegrationFiles_def)
    ultimately show ?thesis
      by simp
  qed
  have steps: "generateServer hb config d =
      runSteps
       [ensureDir d,
        ensureDir (pathJoin d [''src'']),
        ensureDir (pathJoin d [''src'', ''tools'']),
        ensureDir (pathJoin d [''src'', ''integrations'']),
        generateServerIndex hb config d,
        generatePackageJson hb config d,
        generateTsConfig hb d,
        generateToolsIndex hb config d,
        generateEnvFile config d,
        generateReadme hb config d,
        generateToolFiles hb config d,
        generateIntegrationFiles hb config d,
        generateTypesFile hb config d]" for d
    by (rule ext) (simp only: generateServer_def)
  show ?thesis
    unfolding steps
    by (intro correspond_runSteps list_all2_Cons[THEN iffD2] conjI list_all2_Nil[THEN iffD2]
          correspond_directories correspond_fixed_files tools integrations refl)
qed

text \<open>
  Claim C9, as the code has it. The file name of a tool or an integration is its
  kebab-cased name, and \<open>path.join\<close> reads the slashes and the \<open>..\<close> segments in it, so the
  claim needs names without a slash. For every engine and every configuration whose tool
  and integration names hold no slash, rendering into two unblocked output directories
  that start with the same content, in particular two empty ones, has the same outcome
  in both (it succeeds in both, or fails in both with the same error) and leaves the same
  tree in both: the same relative directories and the same relative file paths with the
  same contents.
\<close>

theorem render_deterministic:
  assumes "\<forall>tool\<in>set (cc_customTools config). CHR ''/'' \<notin> set (ct_name tool)"
    and "\<forall>integration\<in>set (cc_integrations config). CHR ''/'' \<notin> set (ci_name integration)"
    and "unblocked fs1 outputDir1" and "unblocked fs2 outputDir2"
    and "outputTree outputDir1 fs1 = outputTree outputDir2 fs2"
  shows "fst (generateServer hb config outputDir1 fs1) =
         fst (generateServer hb config outputDir2 fs2) \<and>
         outputTree outputDir1 (snd (generateServer hb config outputDir1 fs1)) =
         outputTree outputDir2 (snd (generateServer hb config outputDir2 fs2))"
proof -
  from assms(3-5) have "agree outputDir1 fs1 outputDir2 fs2"
    by (simp add: agree_def)
  with correspond_generateServer[OF assms(1,2), of outputDir1 outputDir2 hb]
  have "fst (generateServer hb config outputDir1 fs1) =
        fst (generateServer hb config outputDir2 fs2) \<and>
        agree outputDir1 (snd (generateServer hb config outputDir1 fs1))
              outputDir2 (snd (generateServer hb config outputDir2 fs2))"
    by (simp add: correspond_def)
  then show ?thesis
    by (simp add: agree_def)
qed

theorem render_deterministic_witness:
  "unblocked siblings firstDir \<and> unblocked siblings secondDir \<and>
   outputTree firstDir siblings = outputTree secondDir siblings \<and>
   fst (generateServer plainEngine weatherServer firstDir siblings) = None \<and>
   fst (generateServer plainEngine weatherServer secondDir siblings) = None \<and>
   fs_files (snd (generateServer plainEngine weatherServer firstDir siblings))
     (firstDir @ [''src'', ''tools'', ''get-weather.ts'']) = Some ''tool:getWeather'' \<and>
   outputTree firstDir (snd (generateServer plainEngine weatherServer firstDir siblings)) =
   outputTree secondDir (snd (generateServer plainEngine weatherServer secondDir siblings))"
proof -
  have tools: "\<forall>tool\<in>set (cc_customTools weatherServer). CHR ''/'' \<notin> set (ct_name tool)"
    by code_simp
  have integrations:
    "\<forall>integration\<in>set (cc_integrations weatherServer). CHR ''/'' \<notin> set (ci_name integration)"
    by code_simp
  have u1: "unblocked siblings firstDir"
    by code_simp
  have u2: "unblocked siblings secondDir"
    by code_simp
  have same: "outputTree firstDir siblings = outputTree secondDir siblings"
    by (auto simp: outputTree_def siblings_def firstDir_def secondDir_def isDir_def)
  have ok: "fst (generateServer plainEngine weatherServer firstDir siblings) = None"
    by code_simp
  have written: "fs_files (snd (generateServer plainEngine weatherServer firstDir siblings))
     (firstDir @ [''src'', ''tools'', ''get-weather.ts'']) = Some ''tool:getWeather''"
    by code_simp
  note r = render_deterministic[OF tools integrations u1 u2 same, of plainEngine]
  from r ok have ok2: "fst (generateServer plainEngine weatherServer secondDir siblings) = None"
    by simp
  from r have trees:
    "outputTree firstDir (snd (generateServer plainEngine weatherServer firstDir siblings)) =
     outputTree secondDir (snd (generateServer plainEngine weatherServer secondDir siblings))"
    by (rule conjunct2)
  show ?thesis
    by (intro conjI u1 u2 same ok ok2 written trees)
qed

text \<open>
  A tool named \<open>../../../second/evil\<close> is rendered into the two empty sibling directories
  \<open>/work/first\<close> and \<open>/work/second\<close>. Both renderings succeed, and both write the file of
  the tool to \<open>/work/second/evil.ts\<close>: it is part of the tree of the second directory
  and not of the tree of the first.
\<close>

theorem render_escape_counterexample:
  "outputTree firstDir siblings = outputTree secondDir siblings \<and>
   fst (outputTree firstDir siblings) = {[]} \<and> snd (outputTree firstDir siblings) = Map.empty \<and>
   fst (generateServer plainEngine escapingServer firstDir siblings) = None \<and>
   fst (generateServer plainEngine escapingServer secondDir siblings) = None \<and>
   snd (outputTree firstDir (snd (generateServer plainEngine escapingServer firstDir siblings)))
     [''evil.ts''] = None \<and>
   snd (outputTree secondDir (snd (generateServer plainEngine escapingServer secondDir siblings)))
     [''evil.ts''] = Some ''tool:../../../second/evil'' \<and>
   outputTree firstDir (snd (generateServer plainEngine escapingServer firstDir siblings)) \<noteq>
   outputTree secondDir (snd (generateServer plainEngine escapingServer secondDir siblings))"
proof -
  have same: "outputTree firstDir siblings = outputTree secondDir siblings"
    by (auto simp: outputTree_def siblings_def firstDir_def secondDir_def isDir_def)
  have dirs: "fst (outputTree firstDir siblings) = {[]}"
    by (auto simp: outputTree_def siblings_def firstDir_def isDir_def)
  have files: "snd (outputTree firstDir siblings) = Map.empty"
    by (simp add: outputTree_def siblings_def)
  have ok1: "fst (generateServer plainEngine escapingServer firstDir siblings) = None"
    by code_simp
  have ok2: "fst (generateServer plainEngine escapingServer secondDir siblings) = None"
    by code_simp
  have "fs_files (snd (generateServer plainEngine escapingServer firstDir siblings))
          (firstDir @ [''evil.ts'']) = None"
    by code_simp
  then have out1: "snd (outputTree firstDir
      (snd (generateServer plainEngine escapingServer firstDir siblings))) [''evil.ts''] = None"
    by (simp add: outputTree_def)
  have "fs_files (snd (generateServer plainEngine escapingServer secondDir siblings))
          (secondDir @ [''evil.ts'']) = Some ''tool:../../../second/evil''"
    by code_simp
  then have out2: "snd (outputTree secondDir
      (snd (generateServer plainEngine escapingServer secondDir siblings))) [''evil.ts''] =
      Some ''tool:../../../second/evil''"
    by (simp add: outputTree_def)
  from out1 out2 have differ:
    "outputTree firstDir (snd (generateServer plainEngine escapingServer firstDir siblings)) \<noteq>
     outputTree secondDir (snd (generateServer plainEngine escapingServer secondDir siblings))"
    by auto
  show ?thesis
    by (intro conjI same dirs files ok1 ok2 out1 out2 differ)
qed

end
